theory Spec2Isabelle
  imports Complex_Main "HOL-Library.Word" "HOL-Library.Signed_Division"
begin

unbundle bit_operations_syntax

section \<open>The SX127x driver (main/io/sx127x.c)\<close>

text \<open>
  The driver targets a 32-bit platform: \<^verbatim>\<open>unsigned long\<close>, \<^verbatim>\<open>unsigned\<close> and
  \<^verbatim>\<open>int\<close> are 32 bits wide, \<^verbatim>\<open>uint64_t\<close> is 64 bits and \<^verbatim>\<open>uint8_t\<close> is a byte.
  Unsigned values are words; a signed value is a word read through \<open>sint\<close>, or an \<open>int\<close>
  where the source only compares it.
\<close>

type_synonym u8 = "8 word"
type_synonym u32 = "32 word"
type_synonym u64 = "64 word"

subsection \<open>Constants\<close>

definition SX127X_FXOSC :: u64 where "SX127X_FXOSC = 32000000"
definition SX127X_FSK_FREQ_STEP :: real where "SX127X_FSK_FREQ_STEP = 61.03515625"

definition REG_FIFO :: u8 where "REG_FIFO = 0x00"
definition REG_OP_MODE :: u8 where "REG_OP_MODE = 0x01"
definition REG_FRF_MSB :: u8 where "REG_FRF_MSB = 0x06"
definition REG_FRF_MID :: u8 where "REG_FRF_MID = 0x07"
definition REG_FRF_LSB :: u8 where "REG_FRF_LSB = 0x08"
definition REG_FSK_RSSI_VALUE :: u8 where "REG_FSK_RSSI_VALUE = 0x11"
definition REG_LORA_FIFO_ADDR_PTR :: u8 where "REG_LORA_FIFO_ADDR_PTR = 0x0d"
definition REG_LORA_IRQ_FLAGS :: u8 where "REG_LORA_IRQ_FLAGS = 0x12"
definition REG_LORA_PKT_SNR_VALUE :: u8 where "REG_LORA_PKT_SNR_VALUE = 0x19"
definition REG_LORA_PKT_RSSI_VALUE :: u8 where "REG_LORA_PKT_RSSI_VALUE = 0x1a"
definition REG_LORA_MODEM_CONFIG_2 :: u8 where "REG_LORA_MODEM_CONFIG_2 = 0x1e"
definition REG_LORA_PPM_CORRECTION :: u8 where "REG_LORA_PPM_CORRECTION = 0x27"
definition REG_LORA_DETECTION_OPTIMIZE :: u8 where "REG_LORA_DETECTION_OPTIMIZE = 0x31"
definition REG_LORA_DETECTION_BW500_OPTIMIZE_1 :: u8 where
  "REG_LORA_DETECTION_BW500_OPTIMIZE_1 = 0x36"
definition REG_LORA_DETECTION_THRESHOLD :: u8 where "REG_LORA_DETECTION_THRESHOLD = 0x37"
definition REG_LORA_DETECTION_BW500_OPTIMIZE_2 :: u8 where
  "REG_LORA_DETECTION_BW500_OPTIMIZE_2 = 0x3A"

definition MODE_LORA :: u8 where "MODE_LORA = 0x80"
definition MODE_SLEEP :: u8 where "MODE_SLEEP = 0x00"
definition MODE_STDBY :: u8 where "MODE_STDBY = 0x01"

definition IRQ_RX_DONE_MASK :: u8 where "IRQ_RX_DONE_MASK = 0x40"
definition RX_FIFO_ADDR :: u8 where "RX_FIFO_ADDR = 0"

definition SX127X_RX_SENSITIVITY_BW500_WORKAROUND_NONE :: u8 where
  "SX127X_RX_SENSITIVITY_BW500_WORKAROUND_NONE = 0"
definition SX127X_RX_SENSITIVITY_BW500_WORKAROUND_HIGH_BAND :: u8 where
  "SX127X_RX_SENSITIVITY_BW500_WORKAROUND_HIGH_BAND = 1"
definition SX127X_RX_SENSITIVITY_BW500_WORKAROUND_LOW_BAND :: u8 where
  "SX127X_RX_SENSITIVITY_BW500_WORKAROUND_LOW_BAND = 2"

subsection \<open>Driver state\<close>

text \<open>
  Modelled from the spec: the header \<^verbatim>\<open>sx127x.h\<close>, which declares \<^verbatim>\<open>sx127x_t\<close> and the
  enumerations, is not among the sources. The state has the fields of the
  specification's RadioState, under the names the source file uses for them
  (\<^verbatim>\<open>state.mode\<close>, \<^verbatim>\<open>state.op_mode\<close>, \<^verbatim>\<open>state.lora.freq\<close>, ...) and with the widths
  of the locals it compares them with (\<^verbatim>\<open>uint8_t mode\<close>, \<^verbatim>\<open>unsigned long freq\<close>,
  \<^verbatim>\<open>int8_t ppm_correction\<close>, \<^verbatim>\<open>uint8_t workaround\<close>, \<^verbatim>\<open>int sf\<close>). The enumerators are
  the ones the source file names: two modulation schemes and the nine signal
  bandwidths. The SPI handle and the callback pointers are left out: no function
  modelled here touches them.
\<close>

datatype sx127x_op_mode_e = SX127X_OP_MODE_FSK | SX127X_OP_MODE_LORA

datatype sx127x_lora_signal_bw_e =
    SX127X_LORA_SIGNAL_BW_7_8
  | SX127X_LORA_SIGNAL_BW_10_4
  | SX127X_LORA_SIGNAL_BW_15_6
  | SX127X_LORA_SIGNAL_BW_20_8
  | SX127X_LORA_SIGNAL_BW_31_25
  | SX127X_LORA_SIGNAL_BW_41_7
  | SX127X_LORA_SIGNAL_BW_62_5
  | SX127X_LORA_SIGNAL_BW_250
  | SX127X_LORA_SIGNAL_BW_500

record sx127x_fsk_state =
  fsk_freq :: u32
  fsk_payload_length :: u8
  fsk_rx_bandwidth :: u32

record sx127x_lora_state =
  lora_freq :: u32
  lora_ppm_correction :: u8
  lora_payload_length :: u8
  lora_signal_bw :: sx127x_lora_signal_bw_e
  lora_sf :: int
  lora_bw_workaround :: u8

text \<open>
  The chip sits behind the SPI transport. It is modelled as a register file \<open>regs\<close>
  (what a register read returns) together with the log \<open>writes\<close> of every register
  write the driver has issued, oldest first. The transport is taken to succeed:
  \<^verbatim>\<open>ESP_ERROR_CHECK\<close> aborts the firmware otherwise.
\<close>

record sx127x_state =
  mode :: u8
  op_mode :: sx127x_op_mode_e
  dio0_trigger :: int
  tx_done :: bool
  rx_done :: bool
  fsk :: sx127x_fsk_state
  lora :: sx127x_lora_state
  regs :: "u8 \<Rightarrow> u8"
  writes :: "(u8 \<times> u8) list"

subsection \<open>Register transport and the mode controller\<close>

definition sx127x_read_reg :: "sx127x_state \<Rightarrow> u8 \<Rightarrow> u8" where
  "sx127x_read_reg s addr = regs s addr"

definition sx127x_write_reg :: "sx127x_state \<Rightarrow> u8 \<Rightarrow> u8 \<Rightarrow> sx127x_state" where
  "sx127x_write_reg s addr v =
     s\<lparr>regs := (regs s)(addr := v), writes := writes s @ [(addr, v)]\<rparr>"

definition sx127x_set_mode :: "sx127x_state \<Rightarrow> u8 \<Rightarrow> sx127x_state" where
  "sx127x_set_mode s m =
     (if mode s \<noteq> m then (sx127x_write_reg s REG_OP_MODE m)\<lparr>mode := m\<rparr> else s)"

definition sx127x_sleep :: "sx127x_state \<Rightarrow> sx127x_state" where
  "sx127x_sleep s = sx127x_set_mode s ((mode s AND MODE_LORA) OR MODE_SLEEP)"

definition sx127x_idle :: "sx127x_state \<Rightarrow> sx127x_state" where
  "sx127x_idle s = sx127x_set_mode s ((mode s AND MODE_LORA) OR MODE_STDBY)"

definition sx127x_prepare_write :: "sx127x_state \<Rightarrow> sx127x_state" where
  "sx127x_prepare_write s =
     (case op_mode s of
        SX127X_OP_MODE_FSK \<Rightarrow> sx127x_sleep s
      | SX127X_OP_MODE_LORA \<Rightarrow>
          (let m = mode s AND NOT MODE_LORA
           in if m \<noteq> MODE_SLEEP \<and> m \<noteq> MODE_STDBY then sx127x_idle s else s))"

subsection \<open>The bandwidth-500 sensitivity workaround\<close>

text \<open>The class the workaround computes from the cached bandwidth and frequency.\<close>

definition bw500_workaround_class :: "sx127x_state \<Rightarrow> u8" where
  "bw500_workaround_class s =
     (if lora_signal_bw (lora s) = SX127X_LORA_SIGNAL_BW_500 \<and>
         862000000 \<le> lora_freq (lora s) \<and> lora_freq (lora s) \<le> 1020000000
      then SX127X_RX_SENSITIVITY_BW500_WORKAROUND_HIGH_BAND
      else if lora_signal_bw (lora s) = SX127X_LORA_SIGNAL_BW_500 \<and>
         410000000 \<le> lora_freq (lora s) \<and> lora_freq (lora s) \<le> 525000000
      then SX127X_RX_SENSITIVITY_BW500_WORKAROUND_LOW_BAND
      else SX127X_RX_SENSITIVITY_BW500_WORKAROUND_NONE)"

definition sx127x_apply_bw500_sensitivity_workaround :: "sx127x_state \<Rightarrow> sx127x_state" where
  "sx127x_apply_bw500_sensitivity_workaround s =
     (let workaround = bw500_workaround_class s
      in if workaround \<noteq> lora_bw_workaround (lora s)
         then
           (let s1 =
              (if workaround = SX127X_RX_SENSITIVITY_BW500_WORKAROUND_NONE
               then sx127x_write_reg s REG_LORA_DETECTION_BW500_OPTIMIZE_1 0x03
               else if workaround = SX127X_RX_SENSITIVITY_BW500_WORKAROUND_HIGH_BAND
               then sx127x_write_reg
                      (sx127x_write_reg s REG_LORA_DETECTION_BW500_OPTIMIZE_1 0x02)
                      REG_LORA_DETECTION_BW500_OPTIMIZE_2 0x64
               else if workaround = SX127X_RX_SENSITIVITY_BW500_WORKAROUND_LOW_BAND
               then sx127x_write_reg
                      (sx127x_write_reg s REG_LORA_DETECTION_BW500_OPTIMIZE_1 0x02)
                      REG_LORA_DETECTION_BW500_OPTIMIZE_2 0x7F
               else s)
            in s1\<lparr>lora := (lora s1)\<lparr>lora_bw_workaround := workaround\<rparr>\<rparr>)
         else s)"

subsection \<open>Frequency synthesizer\<close>

text \<open>
  \<^verbatim>\<open>sx127x_set_frequency\<close> in three blocks, in the order of the source.

  The first block is the \<^verbatim>\<open>switch\<close> that updates the cached frequency and computes
  \<^verbatim>\<open>frf\<close>. In FSK mode the source divides in double precision and converts to
  \<^verbatim>\<open>uint32_t\<close>, which truncates. The step 61.03515625 is the binary fraction
  15625/256 and \<open>freq < 2 ^ 32\<close>, so the exact quotient is either an integer or at
  least 1/15625 away from one, far more than a double's rounding error at that size:
  truncating the exact quotient, as below, gives the integer the source gets.
\<close>

definition set_frequency_frf :: "sx127x_state \<Rightarrow> u32 \<Rightarrow> sx127x_state \<times> u64" where
  "set_frequency_frf s freq =
     (case op_mode s of
        SX127X_OP_MODE_FSK \<Rightarrow>
          if freq \<noteq> fsk_freq (fsk s)
          then (s\<lparr>fsk := (fsk s)\<lparr>fsk_freq := freq\<rparr>\<rparr>,
                ucast (word_of_int \<lfloor>real (unat freq) / SX127X_FSK_FREQ_STEP\<rfloor> :: u32))
          else (s, 0)
      | SX127X_OP_MODE_LORA \<Rightarrow>
          if freq \<noteq> lora_freq (lora s)
          then (s\<lparr>lora := (lora s)\<lparr>lora_freq := freq\<rparr>\<rparr>,
                push_bit 19 (ucast freq :: u64) div SX127X_FXOSC)
          else (s, 0))"

text \<open>
  The second block writes the tuning word when it is not zero. The wait for the PLL
  that follows the three writes only reads the clock; it changes neither the driver
  state nor the chip and is not modelled.
\<close>

definition set_frequency_write_frf :: "sx127x_state \<Rightarrow> u64 \<Rightarrow> sx127x_state" where
  "set_frequency_write_frf s frf =
     (if frf > 0
      then
        (let s1 = sx127x_prepare_write s;
             s2 = sx127x_write_reg s1 REG_FRF_MSB (ucast (drop_bit 16 frf));
             s3 = sx127x_write_reg s2 REG_FRF_MID (ucast (drop_bit 8 frf));
             s4 = sx127x_write_reg s3 REG_FRF_LSB (ucast (drop_bit 0 frf))
         in s4)
      else s)"

text \<open>The three register writes of the second block, for a tuning word \<open>frf\<close>.\<close>

definition frf_writes :: "u64 \<Rightarrow> (u8 \<times> u8) list" where
  "frf_writes frf =
     [(REG_FRF_MSB, ucast (drop_bit 16 frf)), (REG_FRF_MID, ucast (drop_bit 8 frf)),
      (REG_FRF_LSB, ucast (drop_bit 0 frf))]"

text \<open>
  The third block is the LoRa PPM correction. The source computes
  \<^verbatim>\<open>lrintf(0.95f * (error / ((float)freq / 1000000)))\<close> in single precision. That
  value is a function of \<open>error\<close> and \<open>freq\<close> alone; it is the parameter \<open>lrintf_ppm\<close>
  here, so that everything proved holds whatever the floating-point unit returns.
  \<open>ppm_binary32\<close> below is its value in IEEE 754 single precision.

  Modelled from the spec: \<^verbatim>\<open>MIN\<close> and \<^verbatim>\<open>MAX\<close> are macros of util/macros.h, which is
  not among the sources; they clamp the value into the signed 8-bit range
  \<open>[-128, 127]\<close>, as the minimum and the maximum do.
\<close>

definition set_frequency_ppm ::
  "(u32 \<Rightarrow> u32 \<Rightarrow> int) \<Rightarrow> sx127x_state \<Rightarrow> u32 \<Rightarrow> u32 \<Rightarrow> sx127x_state" where
  "set_frequency_ppm lrintf_ppm s freq error =
     (if op_mode s = SX127X_OP_MODE_LORA
      then
        (let ppm_correction = (word_of_int (min (max (lrintf_ppm error freq) (- 128)) 127) :: u8);
             s1 =
               (if ppm_correction \<noteq> lora_ppm_correction (lora s)
                then
                  (let s2 = sx127x_write_reg (sx127x_prepare_write s)
                              REG_LORA_PPM_CORRECTION ppm_correction
                   in s2\<lparr>lora := (lora s2)\<lparr>lora_ppm_correction := ppm_correction\<rparr>\<rparr>)
                else s)
         in sx127x_apply_bw500_sensitivity_workaround s1)
      else s)"

text \<open>\<open>freq0\<close> is the \<^verbatim>\<open>freq\<close> argument; \<^verbatim>\<open>freq -= error\<close> wraps modulo \<open>2 ^ 32\<close>.\<close>

definition sx127x_set_frequency ::
  "(u32 \<Rightarrow> u32 \<Rightarrow> int) \<Rightarrow> sx127x_state \<Rightarrow> u32 \<Rightarrow> u32 \<Rightarrow> sx127x_state" where
  "sx127x_set_frequency lrintf_ppm s freq0 error =
     (let freq = freq0 - error;
          (s1, frf) = set_frequency_frf s freq;
          s2 = set_frequency_write_frf s1 frf
      in set_frequency_ppm lrintf_ppm s2 freq error)"

subsection \<open>Single-precision arithmetic\<close>

text \<open>
  The value of the PPM expression on the target, whose \<^verbatim>\<open>float\<close> is IEEE 754 binary32
  with the default rounding: every conversion and operation yields the nearest number
  with a significand of 24 bits, ties going to the even significand. \<open>binary32\<close> is
  that rounding on the reals, with no bound on the exponent. For the expression below
  that is exact: with \<open>freq\<close> not zero its intermediate values are zero or between
  \<open>10 ^ -6\<close> and \<open>2.2 * 10 ^ 15\<close> in magnitude, inside the normal range.

  \<open>bit_length n\<close> is the number of binary digits of \<open>n\<close>, \<open>pow2 k\<close> is \<open>2 ^ k\<close> for an
  integer \<open>k\<close>, and \<open>binary_exponent x\<close> is the \<open>e\<close> with \<open>2 ^ e \<le> \<bar>x\<bar> < 2 ^ (e + 1)\<close>.
\<close>

fun bit_length :: "nat \<Rightarrow> nat" where
  "bit_length n = (if n = 0 then 0 else Suc (bit_length (n div 2)))"

declare bit_length.simps [simp del]

definition pow2 :: "int \<Rightarrow> real" where
  "pow2 k = (if 0 \<le> k then 2 ^ nat k else 1 / 2 ^ nat (- k))"

definition binary_exponent :: "real \<Rightarrow> int" where
  "binary_exponent x =
     (let a = \<bar>x\<bar>
      in if 1 \<le> a then int (bit_length (nat \<lfloor>a\<rfloor>)) - 1
         else (let k = int (bit_length (nat \<lfloor>1 / a\<rfloor>)) - 1
               in if a = pow2 (- k) then - k else - k - 1))"

text \<open>Rounding to the nearest integer, ties to even: \<^verbatim>\<open>lrintf\<close> in the default mode.\<close>

definition rint_even :: "real \<Rightarrow> int" where
  "rint_even q =
     (let f = \<lfloor>q\<rfloor>; d = q - of_int f
      in if d < 1 / 2 then f else if d > 1 / 2 then f + 1
         else if even f then f else f + 1)"

definition binary32 :: "real \<Rightarrow> real" where
  "binary32 x =
     (if x = 0 then 0
      else (let ulp = pow2 (binary_exponent x - 23)
            in of_int (rint_even (x / ulp)) * ulp))"

text \<open>
  \<^verbatim>\<open>lrintf(0.95f * (error / ((float)freq / 1000000)))\<close>, operation by operation:
  \<^verbatim>\<open>0.95f\<close> is the constant rounded, \<^verbatim>\<open>error\<close> is an \<^verbatim>\<open>int\<close> converted to
  \<^verbatim>\<open>float\<close>, 1000000 converts exactly. There is no value where the C standard leaves
  the result open: for \<open>freq = 0\<close>, where the quotient is an infinity or not a number,
  and where the rounded value does not fit a 32-bit \<^verbatim>\<open>long\<close>.
\<close>

definition ppm_binary32 :: "u32 \<Rightarrow> u32 \<Rightarrow> int option" where
  "ppm_binary32 error freq =
     (if freq = 0 then None
      else
        (let x = binary32 (binary32 (95 / 100) *
                   binary32 (binary32 (of_int (sint error)) /
                     binary32 (binary32 (of_nat (unat freq)) / 1000000)));
             r = rint_even x
         in if - (2 ^ 31) \<le> r \<and> r < 2 ^ 31 then Some r else None))"

text \<open>
  The same as an argument for \<open>sx127x_set_frequency\<close>; the 0 stands where the result is
  open, and nothing proved below looks at it.
\<close>

definition lrintf_ppm_binary32 :: "u32 \<Rightarrow> u32 \<Rightarrow> int" where
  "lrintf_ppm_binary32 error freq = (case ppm_binary32 error freq of Some r \<Rightarrow> r | None \<Rightarrow> 0)"

subsection \<open>Receive path\<close>

text \<open>
  \<^verbatim>\<open>sx127x_read\<close>: the burst read of the FIFO and, in FSK mode, the FEC decoder fill
  the caller's buffer, which is not part of the driver state; the model keeps the
  effects on the driver and on the registers, and the returned size.
\<close>

definition sx127x_read :: "sx127x_state \<Rightarrow> nat \<Rightarrow> sx127x_state \<times> nat" where
  "sx127x_read s sz =
     (let s1 =
            (if op_mode s = SX127X_OP_MODE_LORA
             then sx127x_write_reg (sx127x_prepare_write s) REG_LORA_FIFO_ADDR_PTR RX_FIFO_ADDR
             else s);
          s2 = s1\<lparr>rx_done := False\<rparr>;
          s3 =
            (case op_mode s2 of
               SX127X_OP_MODE_FSK \<Rightarrow> s2
             | SX127X_OP_MODE_LORA \<Rightarrow> sx127x_write_reg s2 REG_LORA_IRQ_FLAGS IRQ_RX_DONE_MASK)
      in (s3, sz))"

definition sx127x_is_tx_done :: "sx127x_state \<Rightarrow> bool" where
  "sx127x_is_tx_done s = tx_done s"

definition sx127x_is_rx_done :: "sx127x_state \<Rightarrow> bool" where
  "sx127x_is_rx_done s = rx_done s"

subsection \<open>Signal quality\<close>

definition sx127x_lora_min_rssi :: "sx127x_state \<Rightarrow> int" where
  "sx127x_lora_min_rssi s = (if lora_freq (lora s) > 700000 then - 157 else - 164)"

definition sx127x_rx_sensitivity :: "sx127x_state \<Rightarrow> int" where
  "sx127x_rx_sensitivity s =
     (case op_mode s of
        SX127X_OP_MODE_FSK \<Rightarrow> - 95
      | SX127X_OP_MODE_LORA \<Rightarrow>
          if lora_signal_bw (lora s) = SX127X_LORA_SIGNAL_BW_500
          then
            (if lora_sf (lora s) = 6 then - 109
             else if lora_sf (lora s) = 7 then - 114
             else if lora_sf (lora s) = 8 then - 117
             else if lora_sf (lora s) = 9 then - 120
             else if lora_sf (lora s) = 10 then - 123
             else if lora_sf (lora s) = 11 then - 125
             else if lora_sf (lora s) = 12 then - 128
             else 0)
          else 0)"

text \<open>
  C's integer division and its conversion of a floating-point value to \<^verbatim>\<open>int\<close> both
  truncate towards zero. The divisor of \<^verbatim>\<open>link_quality\<close> is never zero where
  \<^verbatim>\<open>sx127x_rssi\<close> calls it: the sensitivity is -95 against a maximum of 0 in FSK mode and
  at most 0 against a maximum of 1 in LoRa mode.
\<close>

definition c_trunc :: "real \<Rightarrow> int" where
  "c_trunc x = (if 0 \<le> x then \<lfloor>x\<rfloor> else \<lceil>x\<rceil>)"

definition link_quality :: "int \<Rightarrow> int \<Rightarrow> int \<Rightarrow> int" where
  "link_quality min_dbm max_dbm dbm =
     (100 * (max_dbm - min_dbm) * (max_dbm - min_dbm)
        - (max_dbm - dbm) * (25 * (max_dbm - min_dbm) + 75 * (max_dbm - dbm)))
     sdiv ((max_dbm - min_dbm) * (max_dbm - min_dbm))"

text \<open>
  \<^verbatim>\<open>sx127x_rssi\<close> returns \<^verbatim>\<open>rssi_value\<close> and stores the SNR and the link quality
  through its two pointers when they are not \<^verbatim>\<open>NULL\<close>; the model returns the three
  values. The two-byte LoRa transaction at \<^verbatim>\<open>REG_LORA_PKT_SNR_VALUE\<close> reads that
  register and the next one. The arithmetic on \<^verbatim>\<open>double\<close> and \<^verbatim>\<open>float\<close> is
  done exactly: with a byte for \<^verbatim>\<open>raw_rssi\<close> the exact value of
  \<^verbatim>\<open>min_rssi + (16 / 15.0) * raw_rssi\<close> is an integer or at least 1/15 away from
  one, and the quarter steps of the other branch are exact in single precision, so the
  truncation is the one the source computes.
\<close>

definition sx127x_rssi :: "sx127x_state \<Rightarrow> int \<times> int \<times> int" where
  "sx127x_rssi s =
     (let rx_sensitivity = sx127x_rx_sensitivity s;
          (rssi_max_dbm, rssi_value, snr_value) =
            (case op_mode s of
               SX127X_OP_MODE_FSK \<Rightarrow>
                 (let rssi_value = uint (sx127x_read_reg s REG_FSK_RSSI_VALUE) sdiv (- 2)
                  in (0, rssi_value, (- rx_sensitivity + rssi_value) * 4))
             | SX127X_OP_MODE_LORA \<Rightarrow>
                 (let snr_value = sint (sx127x_read_reg s REG_LORA_PKT_SNR_VALUE);
                      raw_rssi = sx127x_read_reg s REG_LORA_PKT_RSSI_VALUE;
                      min_rssi = sx127x_lora_min_rssi s;
                      rssi_value =
                        (if snr_value \<ge> 0
                         then c_trunc (real_of_int min_rssi + (16 / 15) * real (unat raw_rssi))
                         else if snr_value < 0
                         then c_trunc (real_of_int (min_rssi + uint raw_rssi)
                                         + real_of_int snr_value * 0.25)
                         else min_rssi + uint raw_rssi)
                  in (1, rssi_value, snr_value)))
      in (rssi_value, snr_value,
          max 0 (min (link_quality rx_sensitivity rssi_max_dbm rssi_value) 100)))"

subsection \<open>FSK bandwidth lookup\<close>

definition fsk_bandwidths :: "(u32 \<times> u8) list" where
  "fsk_bandwidths =
     [(2600, 0x17), (3100, 0x0F), (3900, 0x07), (5200, 0x16), (6300, 0x0E), (7800, 0x06),
      (10400, 0x15), (12500, 0x0D), (15600, 0x05), (20800, 0x14), (25000, 0x0C),
      (31300, 0x04), (41700, 0x13), (50000, 0x0B), (62500, 0x03), (83333, 0x12),
      (100000, 0x0A), (125000, 0x02), (166700, 0x11), (200000, 0x09), (250000, 0x01),
      (300000, 0x00)]"

text \<open>
  Modelled from the spec: \<^verbatim>\<open>UNREACHABLE()\<close> is a macro of util/macros.h, which is not
  among the sources; reaching it is a fatal configuration error that is never silently
  handled. The lookup then has no value, which is \<open>Inl Unreachable\<close>.
\<close>

datatype error = Unreachable

text \<open>
  The \<^verbatim>\<open>for\<close> loop of \<^verbatim>\<open>sx127x_get_fsk_bandwidth_reg_value\<close>, from index \<open>ii\<close> on,
  over a table \<open>tbl\<close>; \<^verbatim>\<open>ARRAY_COUNT\<close> is the number of entries.
\<close>

function fsk_bandwidth_loop :: "(u32 \<times> u8) list \<Rightarrow> nat \<Rightarrow> u32 \<Rightarrow> error + u8" where
  "fsk_bandwidth_loop tbl ii hz =
     (if ii < length tbl - 1
      then
        (if hz \<ge> fst (tbl ! ii) \<and> hz < fst (tbl ! (ii + 1))
         then Inr (snd (tbl ! ii))
         else fsk_bandwidth_loop tbl (ii + 1) hz)
      else Inl Unreachable)"
  by pat_completeness auto
termination
  by (relation "measure (\<lambda>(tbl, ii, hz). length tbl - 1 - ii)") auto

declare fsk_bandwidth_loop.simps [simp del]

definition sx127x_get_fsk_bandwidth_reg_value :: "u32 \<Rightarrow> error + u8" where
  "sx127x_get_fsk_bandwidth_reg_value hz = fsk_bandwidth_loop fsk_bandwidths 0 hz"

subsection \<open>LoRa spreading factor\<close>

definition sx127x_set_lora_spreading_factor :: "sx127x_state \<Rightarrow> int \<Rightarrow> sx127x_state" where
  "sx127x_set_lora_spreading_factor s sf0 =
     (let s0 = sx127x_prepare_write s;
          sf = (if sf0 < 6 then 6 else if sf0 > 12 then 12 else sf0);
          s1 =
            (if sf = 6
             then sx127x_write_reg (sx127x_write_reg s0 REG_LORA_DETECTION_OPTIMIZE 0xc5)
                    REG_LORA_DETECTION_THRESHOLD 0x0c
             else sx127x_write_reg (sx127x_write_reg s0 REG_LORA_DETECTION_OPTIMIZE 0xc3)
                    REG_LORA_DETECTION_THRESHOLD 0x0a);
          s2 = sx127x_write_reg s1 REG_LORA_MODEM_CONFIG_2
                 ((sx127x_read_reg s1 REG_LORA_MODEM_CONFIG_2 AND 0x0f)
                    OR (word_of_int (push_bit 4 sf) AND 0xf0))
      in s2\<lparr>lora := (lora s2)\<lparr>lora_sf := sf\<rparr>\<rparr>)"

text \<open>A zero-initialised driver structure in front of a chip whose registers read 0.\<close>

definition zeroed_state :: sx127x_state where
  "zeroed_state =
     \<lparr>mode = 0, op_mode = SX127X_OP_MODE_FSK, dio0_trigger = 0,
      tx_done = False, rx_done = False,
      fsk = \<lparr>fsk_freq = 0, fsk_payload_length = 0, fsk_rx_bandwidth = 0\<rparr>,
      lora = \<lparr>lora_freq = 0, lora_ppm_correction = 0, lora_payload_length = 0,
              lora_signal_bw = SX127X_LORA_SIGNAL_BW_7_8, lora_sf = 0,
              lora_bw_workaround = 0\<rparr>,
      regs = (\<lambda>_. 0), writes = []\<rparr>"

text \<open>A receiving LoRa driver: the chip is in continuous receive (mode 0x85).\<close>

definition lora_rx_state :: sx127x_state where
  "lora_rx_state = zeroed_state\<lparr>mode := 0x85, op_mode := SX127X_OP_MODE_LORA\<rparr>"

text \<open>
  A LoRa driver tuned to 868 MHz whose chip reports a packet SNR byte of 0 and a raw
  packet RSSI byte of 100; and a LoRa driver tuned to 433 MHz.
\<close>

definition lora_868_snr0_rssi100 :: sx127x_state where
  "lora_868_snr0_rssi100 =
     lora_rx_state\<lparr>lora := (lora lora_rx_state)\<lparr>lora_freq := 868000000\<rparr>,
                    regs := (regs lora_rx_state)
                      (REG_LORA_PKT_SNR_VALUE := 0, REG_LORA_PKT_RSSI_VALUE := 100)\<rparr>"

definition lora_433_state :: sx127x_state where
  "lora_433_state = lora_rx_state\<lparr>lora := (lora lora_rx_state)\<lparr>lora_freq := 433000000\<rparr>\<rparr>"

text \<open>
  A LoRa driver at 500 kHz bandwidth, with a cached frequency \<open>f\<close> and a last applied
  workaround class \<open>c\<close>.
\<close>

definition bw500_at :: "u32 \<Rightarrow> u8 \<Rightarrow> sx127x_state" where
  "bw500_at f c =
     lora_rx_state\<lparr>lora := (lora lora_rx_state)
       \<lparr>lora_freq := f, lora_signal_bw := SX127X_LORA_SIGNAL_BW_500,
        lora_bw_workaround := c\<rparr>\<rparr>"

subsection \<open>Formulas of the specification\<close>

text \<open>
  The specification's FSK tuning word, in its own words: the effective frequency
  divided by the chip step 61.03515625 Hz and rounded to the nearest integer.
\<close>

definition spec_fsk_tuning_word :: "u32 \<Rightarrow> int" where
  "spec_fsk_tuning_word effective = round (real (unat effective) / 61.03515625)"

text \<open>
  The specification's PPM correction, in its own words: 0.95 times the error divided
  by the effective frequency in MHz, rounded, and clamped to the signed 8-bit range.
\<close>

definition spec_ppm_correction :: "u32 \<Rightarrow> u32 \<Rightarrow> int" where
  "spec_ppm_correction error effective =
     min (max (round (0.95 * real_of_int (sint error) / (real (unat effective) / 1000000)))
            (- 128)) 127"

section \<open>Properties\<close>

subsection \<open>Helper facts about the transport\<close>

lemmas reg_defs =
  REG_FIFO_def REG_OP_MODE_def REG_FRF_MSB_def REG_FRF_MID_def REG_FRF_LSB_def
  REG_FSK_RSSI_VALUE_def REG_LORA_FIFO_ADDR_PTR_def REG_LORA_IRQ_FLAGS_def
  REG_LORA_PKT_SNR_VALUE_def REG_LORA_PKT_RSSI_VALUE_def REG_LORA_MODEM_CONFIG_2_def
  REG_LORA_PPM_CORRECTION_def REG_LORA_DETECTION_OPTIMIZE_def
  REG_LORA_DETECTION_BW500_OPTIMIZE_1_def REG_LORA_DETECTION_THRESHOLD_def
  REG_LORA_DETECTION_BW500_OPTIMIZE_2_def

lemmas mode_defs = MODE_LORA_def MODE_SLEEP_def MODE_STDBY_def

lemmas workaround_defs =
  SX127X_RX_SENSITIVITY_BW500_WORKAROUND_NONE_def
  SX127X_RX_SENSITIVITY_BW500_WORKAROUND_HIGH_BAND_def
  SX127X_RX_SENSITIVITY_BW500_WORKAROUND_LOW_BAND_def

lemma writes_write_reg: "writes (sx127x_write_reg s a v) = writes s @ [(a, v)]"
  by (simp add: sx127x_write_reg_def)

lemma write_reg_fields [simp]:
  "mode (sx127x_write_reg s a v) = mode s"
  "op_mode (sx127x_write_reg s a v) = op_mode s"
  "dio0_trigger (sx127x_write_reg s a v) = dio0_trigger s"
  "tx_done (sx127x_write_reg s a v) = tx_done s"
  "rx_done (sx127x_write_reg s a v) = rx_done s"
  "fsk (sx127x_write_reg s a v) = fsk s"
  "lora (sx127x_write_reg s a v) = lora s"
  by (simp_all add: sx127x_write_reg_def)

lemma lora_write_reg: "lora (sx127x_write_reg s a v) = lora s"
  by simp

lemma set_mode_fields [simp]:
  "op_mode (sx127x_set_mode s m) = op_mode s"
  "dio0_trigger (sx127x_set_mode s m) = dio0_trigger s"
  "tx_done (sx127x_set_mode s m) = tx_done s"
  "rx_done (sx127x_set_mode s m) = rx_done s"
  "fsk (sx127x_set_mode s m) = fsk s"
  "lora (sx127x_set_mode s m) = lora s"
  by (simp_all add: sx127x_set_mode_def)

lemma prepare_write_fields [simp]:
  "op_mode (sx127x_prepare_write s) = op_mode s"
  "dio0_trigger (sx127x_prepare_write s) = dio0_trigger s"
  "tx_done (sx127x_prepare_write s) = tx_done s"
  "rx_done (sx127x_prepare_write s) = rx_done s"
  "fsk (sx127x_prepare_write s) = fsk s"
  "lora (sx127x_prepare_write s) = lora s"
  by (simp_all add: sx127x_prepare_write_def sx127x_sleep_def sx127x_idle_def Let_def
      split: sx127x_op_mode_e.split)

lemma writes_write_frf:
  "writes (set_frequency_write_frf s frf) =
     (if frf > 0 then writes (sx127x_prepare_write s) @ frf_writes frf else writes s)"
  by (simp add: set_frequency_write_frf_def frf_writes_def Let_def writes_write_reg)

lemma prepare_write_update:
  "sx127x_prepare_write (s\<lparr>fsk := x\<rparr>) = (sx127x_prepare_write s)\<lparr>fsk := x\<rparr>"
  "sx127x_prepare_write (s\<lparr>lora := y\<rparr>) = (sx127x_prepare_write s)\<lparr>lora := y\<rparr>"
  by (simp_all add: sx127x_prepare_write_def sx127x_sleep_def sx127x_idle_def Let_def
      sx127x_set_mode_def sx127x_write_reg_def split: sx127x_op_mode_e.split)

subsection \<open>Facts about the workaround and the frequency synthesizer\<close>

lemma workaround_class_cong:
  "lora_signal_bw (lora t) = lora_signal_bw (lora s) \<Longrightarrow> lora_freq (lora t) = lora_freq (lora s)
   \<Longrightarrow> bw500_workaround_class t = bw500_workaround_class s"
  by (simp add: bw500_workaround_class_def)

lemma workaround_fields [simp]:
  "op_mode (sx127x_apply_bw500_sensitivity_workaround s) = op_mode s"
  "fsk (sx127x_apply_bw500_sensitivity_workaround s) = fsk s"
  "lora_freq (lora (sx127x_apply_bw500_sensitivity_workaround s)) = lora_freq (lora s)"
  "lora_signal_bw (lora (sx127x_apply_bw500_sensitivity_workaround s)) = lora_signal_bw (lora s)"
  "lora_ppm_correction (lora (sx127x_apply_bw500_sensitivity_workaround s)) =
     lora_ppm_correction (lora s)"
  by (simp_all add: sx127x_apply_bw500_sensitivity_workaround_def Let_def)

lemma workaround_cached:
  "lora_bw_workaround (lora (sx127x_apply_bw500_sensitivity_workaround s)) =
     bw500_workaround_class s"
  by (simp add: sx127x_apply_bw500_sensitivity_workaround_def Let_def)

lemma workaround_noop:
  "lora_bw_workaround (lora s) = bw500_workaround_class s \<Longrightarrow>
   sx127x_apply_bw500_sensitivity_workaround s = s"
  by (simp add: sx127x_apply_bw500_sensitivity_workaround_def Let_def)

lemma workaround_class_apply:
  "bw500_workaround_class (sx127x_apply_bw500_sensitivity_workaround s) =
     bw500_workaround_class s"
  by (rule workaround_class_cong) simp_all

lemma workaround_idem:
  "sx127x_apply_bw500_sensitivity_workaround (sx127x_apply_bw500_sensitivity_workaround s) =
   sx127x_apply_bw500_sensitivity_workaround s"
  by (rule workaround_noop) (simp add: workaround_cached workaround_class_apply)

lemma frf_unchanged:
  "op_mode s = SX127X_OP_MODE_FSK \<Longrightarrow> fsk_freq (fsk s) = freq \<Longrightarrow> set_frequency_frf s freq = (s, 0)"
  "op_mode s = SX127X_OP_MODE_LORA \<Longrightarrow> lora_freq (lora s) = freq \<Longrightarrow> set_frequency_frf s freq = (s, 0)"
  by (simp_all add: set_frequency_frf_def)

lemma write_frf_fields [simp]:
  "op_mode (set_frequency_write_frf s frf) = op_mode s"
  "fsk (set_frequency_write_frf s frf) = fsk s"
  "lora (set_frequency_write_frf s frf) = lora s"
  by (simp_all add: set_frequency_write_frf_def Let_def)

lemma write_frf_zero [simp]: "set_frequency_write_frf s 0 = s"
  by (simp add: set_frequency_write_frf_def)

lemma frf_fields:
  "op_mode (fst (set_frequency_frf s freq)) = op_mode s"
  "op_mode s = SX127X_OP_MODE_FSK \<Longrightarrow> fsk_freq (fsk (fst (set_frequency_frf s freq))) = freq"
  "op_mode s = SX127X_OP_MODE_LORA \<Longrightarrow> lora_freq (lora (fst (set_frequency_frf s freq))) = freq"
  by (simp_all add: set_frequency_frf_def split: sx127x_op_mode_e.split)

lemma ppm_fsk: "op_mode s = SX127X_OP_MODE_FSK \<Longrightarrow> set_frequency_ppm p s freq error = s"
  by (simp add: set_frequency_ppm_def)

lemma ppm_fields:
  "op_mode (set_frequency_ppm p s freq error) = op_mode s"
  "fsk (set_frequency_ppm p s freq error) = fsk s"
  "lora_freq (lora (set_frequency_ppm p s freq error)) = lora_freq (lora s)"
  by (simp_all add: set_frequency_ppm_def Let_def)

lemma ppm_idem:
  "set_frequency_ppm p (set_frequency_ppm p s freq error) freq error =
   set_frequency_ppm p s freq error"
  by (cases "op_mode s")
     (simp_all add: set_frequency_ppm_def Let_def workaround_idem)

subsection \<open>C1: the bandwidth-500 workaround\<close>

lemma bands_disjoint: "\<not> (862000000 \<le> f \<and> f \<le> (525000000 :: u32))"
  by (simp add: word_le_nat_alt)

text \<open>
  C1. The workaround classifies the cached LoRa state: high band exactly when the
  cached bandwidth is 500 kHz and the cached frequency lies in [862e6, 1020e6] Hz, low
  band exactly when the bandwidth is 500 kHz and the frequency lies in [410e6, 525e6]
  Hz, none otherwise. When the class is the one last applied nothing is written;
  otherwise none writes 0x03 to one register, high band writes (0x02, 0x64) to two
  registers and low band writes (0x02, 0x7F) to the same two, and the class becomes the
  one last applied.
\<close>

theorem bw500_workaround_classifies_and_writes:
  "(bw500_workaround_class s = SX127X_RX_SENSITIVITY_BW500_WORKAROUND_HIGH_BAND \<longleftrightarrow>
      (lora_signal_bw (lora s) = SX127X_LORA_SIGNAL_BW_500 \<and>
       862000000 \<le> lora_freq (lora s) \<and> lora_freq (lora s) \<le> 1020000000)) \<and>
   (bw500_workaround_class s = SX127X_RX_SENSITIVITY_BW500_WORKAROUND_LOW_BAND \<longleftrightarrow>
      (lora_signal_bw (lora s) = SX127X_LORA_SIGNAL_BW_500 \<and>
       410000000 \<le> lora_freq (lora s) \<and> lora_freq (lora s) \<le> 525000000)) \<and>
   (bw500_workaround_class s = SX127X_RX_SENSITIVITY_BW500_WORKAROUND_NONE \<longleftrightarrow>
      \<not> (lora_signal_bw (lora s) = SX127X_LORA_SIGNAL_BW_500 \<and>
         (862000000 \<le> lora_freq (lora s) \<and> lora_freq (lora s) \<le> 1020000000 \<or>
          410000000 \<le> lora_freq (lora s) \<and> lora_freq (lora s) \<le> 525000000))) \<and>
   writes (sx127x_apply_bw500_sensitivity_workaround s) =
     writes s @
       (if bw500_workaround_class s = lora_bw_workaround (lora s) then []
        else if bw500_workaround_class s = SX127X_RX_SENSITIVITY_BW500_WORKAROUND_NONE
        then [(REG_LORA_DETECTION_BW500_OPTIMIZE_1, 0x03)]
        else if bw500_workaround_class s = SX127X_RX_SENSITIVITY_BW500_WORKAROUND_HIGH_BAND
        then [(REG_LORA_DETECTION_BW500_OPTIMIZE_1, 0x02),
              (REG_LORA_DETECTION_BW500_OPTIMIZE_2, 0x64)]
        else [(REG_LORA_DETECTION_BW500_OPTIMIZE_1, 0x02),
              (REG_LORA_DETECTION_BW500_OPTIMIZE_2, 0x7F)]) \<and>
   lora_bw_workaround (lora (sx127x_apply_bw500_sensitivity_workaround s)) =
     bw500_workaround_class s"
  using bands_disjoint [of "lora_freq (lora s)"]
  by (auto simp add: bw500_workaround_class_def sx127x_apply_bw500_sensitivity_workaround_def
      workaround_defs Let_def writes_write_reg)

text \<open>
  The cases of the specification at 500 kHz: 900 MHz writes the high-band pair, 450 MHz
  the low-band pair, 200 MHz after the high band the default value; at 900 MHz with the
  high band already applied nothing is written.
\<close>

theorem bw500_workaround_classifies_and_writes_witness:
  "writes (sx127x_apply_bw500_sensitivity_workaround (bw500_at 900000000 0)) =
     [(0x36, 0x02), (0x3A, 0x64)] \<and>
   writes (sx127x_apply_bw500_sensitivity_workaround (bw500_at 450000000 0)) =
     [(0x36, 0x02), (0x3A, 0x7F)] \<and>
   writes (sx127x_apply_bw500_sensitivity_workaround (bw500_at 200000000 1)) =
     [(0x36, 0x03)] \<and>
   writes (sx127x_apply_bw500_sensitivity_workaround (bw500_at 900000000 1)) = []"
  using bw500_workaround_classifies_and_writes [of "bw500_at 900000000 0"]
    bw500_workaround_classifies_and_writes [of "bw500_at 450000000 0"]
    bw500_workaround_classifies_and_writes [of "bw500_at 200000000 1"]
    bw500_workaround_classifies_and_writes [of "bw500_at 900000000 1"]
  by (simp add: bw500_at_def lora_rx_state_def zeroed_state_def workaround_defs reg_defs)

subsection \<open>C2: setting the same frequency twice\<close>

lemma set_frequency_twice:
  "sx127x_set_frequency p (sx127x_set_frequency p s freq error) freq error =
   sx127x_set_frequency p s freq error"
proof -
  define t where "t = sx127x_set_frequency p s freq error"
  obtain s1 frf where sf: "set_frequency_frf s (freq - error) = (s1, frf)"
    by (cases "set_frequency_frf s (freq - error)")
  have t: "t = set_frequency_ppm p (set_frequency_write_frf s1 frf) (freq - error) error"
    by (simp add: t_def sx127x_set_frequency_def sf)
  have s1: "op_mode s1 = op_mode s"
    "op_mode s = SX127X_OP_MODE_FSK \<Longrightarrow> fsk_freq (fsk s1) = freq - error"
    "op_mode s = SX127X_OP_MODE_LORA \<Longrightarrow> lora_freq (lora s1) = freq - error"
    using frf_fields [of s "freq - error"] by (simp_all add: sf)
  have "set_frequency_frf t (freq - error) = (t, 0)"
    by (cases "op_mode s") (simp_all add: t ppm_fields s1 frf_unchanged)
  then have "sx127x_set_frequency p t freq error = set_frequency_ppm p t (freq - error) error"
    by (simp add: sx127x_set_frequency_def)
  also have "\<dots> = t"
    by (simp add: t ppm_idem)
  finally show ?thesis by (simp add: t_def)
qed

text \<open>
  C2. For every frequency and error, every starting state and whatever the
  floating-point correction evaluates to, a second call of \<^verbatim>\<open>sx127x_set_frequency\<close>
  with the same arguments adds nothing to the log of register writes: the frequency
  word, the PPM correction and the workaround registers are written by the first call
  only.
\<close>

theorem set_frequency_second_call_writes_nothing:
  "writes (sx127x_set_frequency p (sx127x_set_frequency p s freq error) freq error) =
   writes (sx127x_set_frequency p s freq error)"
  by (simp only: set_frequency_twice)

text \<open>
  A receiving LoRa driver tuned to 868 MHz, the floating-point expression evaluating to
  3: the first call moves the chip to standby and writes the tuning word and the
  correction; the second adds nothing.
\<close>

theorem set_frequency_second_call_writes_nothing_witness:
  "writes (sx127x_set_frequency (\<lambda>_ _. 3) lora_rx_state 868000000 0) =
     [(0x01, 0x81), (0x06, 0xD9), (0x07, 0x00), (0x08, 0x00), (0x27, 0x03)] \<and>
   writes (sx127x_set_frequency (\<lambda>_ _. 3)
     (sx127x_set_frequency (\<lambda>_ _. 3) lora_rx_state 868000000 0) 868000000 0) =
     [(0x01, 0x81), (0x06, 0xD9), (0x07, 0x00), (0x08, 0x00), (0x27, 0x03)]"
proof -
  have one: "writes (sx127x_set_frequency (\<lambda>_ _. 3) lora_rx_state 868000000 0) =
     [(0x01, 0x81), (0x06, 0xD9), (0x07, 0x00), (0x08, 0x00), (0x27, 0x03)]"
    by (simp add: sx127x_set_frequency_def set_frequency_frf_def set_frequency_write_frf_def
        set_frequency_ppm_def sx127x_apply_bw500_sensitivity_workaround_def
        bw500_workaround_class_def sx127x_prepare_write_def sx127x_idle_def sx127x_sleep_def
        sx127x_set_mode_def sx127x_write_reg_def lora_rx_state_def zeroed_state_def
        SX127X_FXOSC_def reg_defs mode_defs workaround_defs Let_def)
  show ?thesis
    using set_frequency_second_call_writes_nothing [of "\<lambda>_ _. 3" lora_rx_state 868000000 0]
    by (simp add: one)
qed

subsection \<open>C3: the FSK tuning word\<close>

lemma fsk_step_floor:
  "\<lfloor>real n / SX127X_FSK_FREQ_STEP\<rfloor> = int (n * 256 div 15625)"
proof -
  have "real n / SX127X_FSK_FREQ_STEP = real (n * 256) / real 15625"
    by (simp add: SX127X_FSK_FREQ_STEP_def)
  then show ?thesis
    by (simp only: floor_divide_of_nat_eq)
qed

lemma fsk_frf_no_wrap:
  "uint (ucast (word_of_int \<lfloor>real (unat (freq :: u32)) / SX127X_FSK_FREQ_STEP\<rfloor> :: u32) :: u64) =
     \<lfloor>real (unat freq) / SX127X_FSK_FREQ_STEP\<rfloor>"
proof -
  have "unat freq < 2 ^ 32"
    using unsigned_less [of freq, where 'a = nat] by simp
  then have b: "int (unat freq * 256 div 15625) < 2 ^ 32"
    by simp
  have "uint (ucast (word_of_int (int (unat freq * 256 div 15625)) :: u32) :: u64) =
        uint (word_of_int (int (unat freq * 256 div 15625)) :: u32)"
    by (rule uint_up_ucast) (simp add: is_up)
  also have "\<dots> = int (unat freq * 256 div 15625)"
    using b by (simp add: uint_nat unat_of_nat)
  finally show ?thesis
    by (simp only: fsk_step_floor)
qed

lemma writes_prepare_write_fsk_update:
  "writes (sx127x_prepare_write (s\<lparr>fsk := x\<rparr>)) = writes (sx127x_prepare_write s)"
  by (simp add: prepare_write_update)

lemma frf_writes_low24:
  "push_bit 16 (ucast (ucast (drop_bit 16 frf) :: u8) :: u64)
     OR push_bit 8 (ucast (ucast (drop_bit 8 frf) :: u8))
     OR ucast (ucast (drop_bit 0 frf) :: u8) = take_bit 24 (frf :: u64)"
proof (rule bit_word_eqI)
  fix n
  assume "n < LENGTH(64)"
  show "bit (push_bit 16 (ucast (ucast (drop_bit 16 frf) :: u8) :: u64)
     OR push_bit 8 (ucast (ucast (drop_bit 8 frf) :: u8))
     OR ucast (ucast (drop_bit 0 frf) :: u8)) n = bit (take_bit 24 frf) n"
    by (cases "n < 8"; cases "n < 16"; cases "n < 24")
       (auto simp add: bit_or_iff bit_push_bit_iff bit_ucast_iff bit_drop_bit_eq
          bit_take_bit_iff)
qed

text \<open>
  C3, as the source has it. In FSK mode, when the effective frequency
  \<open>target - error\<close> (modulo \<open>2 ^ 32\<close>) differs from the cached one, the tuning word is
  that frequency divided by the step 61.03515625 = 32000000 / 2 ^ 19 and truncated, not
  rounded: it is \<open>effective * 256 div 15625\<close>. A word of zero is not written; any other
  is written, after preparing the chip for writing, as the three bytes of
  \<open>frf_writes\<close> (bits 23 to 16, 15 to 8 and 7 to 0, see \<open>frf_writes_low24\<close>).
\<close>

theorem fsk_tuning_word_truncated:
  assumes "op_mode s = SX127X_OP_MODE_FSK" and "target - error \<noteq> fsk_freq (fsk s)"
  shows "let w = \<lfloor>real (unat (target - error)) / SX127X_FSK_FREQ_STEP\<rfloor> in
           w = int (unat (target - error) * 256 div 15625) \<and>
           writes (sx127x_set_frequency p s target error) =
             (if w = 0 then writes s
              else writes (sx127x_prepare_write s) @ frf_writes (word_of_int w))"
proof -
  define frf :: u64 where
    "frf = ucast (word_of_int \<lfloor>real (unat (target - error)) / SX127X_FSK_FREQ_STEP\<rfloor> :: u32)"
  have sf: "set_frequency_frf s (target - error) =
      (s\<lparr>fsk := (fsk s)\<lparr>fsk_freq := target - error\<rparr>\<rparr>, frf)"
    using assms by (simp add: set_frequency_frf_def frf_def)
  have fl: "\<lfloor>real (unat (target - error)) / SX127X_FSK_FREQ_STEP\<rfloor> =
      int (unat (target - error) * 256 div 15625)"
    by (rule fsk_step_floor)
  have u: "uint frf = \<lfloor>real (unat (target - error)) / SX127X_FSK_FREQ_STEP\<rfloor>"
    unfolding frf_def by (rule fsk_frf_no_wrap)
  have frf: "frf = word_of_int \<lfloor>real (unat (target - error)) / SX127X_FSK_FREQ_STEP\<rfloor>"
    by (simp only: u [symmetric] word_of_int_uint)
  have z: "frf = 0 \<longleftrightarrow> \<lfloor>real (unat (target - error)) / SX127X_FSK_FREQ_STEP\<rfloor> = 0"
    by (simp only: u [symmetric] uint_0_iff)
  have w: "writes (sx127x_set_frequency p s target error) =
      (if frf = 0 then writes s else writes (sx127x_prepare_write s) @ frf_writes frf)"
    using assms
    by (simp add: sx127x_set_frequency_def sf ppm_fsk writes_write_frf
        writes_prepare_write_fsk_update word_greater_zero_iff)
  show ?thesis
    unfolding Let_def
  proof (intro conjI)
    show "\<lfloor>real (unat (target - error)) / SX127X_FSK_FREQ_STEP\<rfloor> =
        int (unat (target - error) * 256 div 15625)"
      by (rule fl)
    show "writes (sx127x_set_frequency p s target error) =
        (if \<lfloor>real (unat (target - error)) / SX127X_FSK_FREQ_STEP\<rfloor> = 0 then writes s
         else writes (sx127x_prepare_write s) @
           frf_writes (word_of_int \<lfloor>real (unat (target - error)) / SX127X_FSK_FREQ_STEP\<rfloor>))"
      using w z frf by (simp only:)
  qed
qed

text \<open>
  A target of 868 MHz with an error of -100 Hz: the quotient is 14221313.6384, the
  word written is 14221313 = 0xD90001.
\<close>

theorem fsk_tuning_word_truncated_witness:
  "writes (sx127x_set_frequency (\<lambda>_ _. 0) zeroed_state 868000000 (- 100)) =
     [(0x06, 0xD9), (0x07, 0x00), (0x08, 0x01)]"
  using fsk_tuning_word_truncated [of zeroed_state 868000000 "- 100" "\<lambda>_ _. 0"]
  by (simp add: zeroed_state_def sx127x_prepare_write_def sx127x_sleep_def sx127x_set_mode_def
      frf_writes_def reg_defs mode_defs SX127X_FSK_FREQ_STEP_def)

text \<open>
  C3 as stated fails at that input: rounding gives 14221314, and the registers do not
  receive its bytes.
\<close>

theorem fsk_tuning_word_rounded_counterexample:
  "op_mode zeroed_state = SX127X_OP_MODE_FSK \<and>
   868000000 - (- 100) \<noteq> fsk_freq (fsk zeroed_state) \<and>
   spec_fsk_tuning_word (868000000 - (- 100)) = 14221314 \<and>
   writes (sx127x_set_frequency (\<lambda>_ _. 0) zeroed_state 868000000 (- 100)) =
     writes (sx127x_prepare_write zeroed_state) @ frf_writes 14221313 \<and>
   writes (sx127x_set_frequency (\<lambda>_ _. 0) zeroed_state 868000000 (- 100)) \<noteq>
     writes (sx127x_prepare_write zeroed_state) @
       frf_writes (word_of_int (spec_fsk_tuning_word (868000000 - (- 100))))"
  by (simp add: zeroed_state_def sx127x_prepare_write_def sx127x_sleep_def sx127x_set_mode_def
      frf_writes_def reg_defs mode_defs SX127X_FSK_FREQ_STEP_def spec_fsk_tuning_word_def
      sx127x_set_frequency_def set_frequency_frf_def set_frequency_write_frf_def
      set_frequency_ppm_def sx127x_write_reg_def Let_def round_def)


subsection \<open>C5: 868 MHz in LoRa mode\<close>

lemma writes_prepare_write:
  "writes (sx127x_prepare_write s) =
     writes s @ (if mode (sx127x_prepare_write s) = mode s then []
                 else [(REG_OP_MODE, mode (sx127x_prepare_write s))])"
  by (simp add: sx127x_prepare_write_def sx127x_sleep_def sx127x_idle_def sx127x_set_mode_def
      writes_write_reg Let_def split: sx127x_op_mode_e.split)

lemma writes_workaround:
  "\<exists>ws. writes (sx127x_apply_bw500_sensitivity_workaround s) = writes s @ ws \<and>
     (\<forall>x \<in> set ws. fst x = REG_LORA_DETECTION_BW500_OPTIMIZE_1 \<or>
                      fst x = REG_LORA_DETECTION_BW500_OPTIMIZE_2)"
  by (simp add: sx127x_apply_bw500_sensitivity_workaround_def Let_def writes_write_reg)

lemma writes_ppm:
  "\<exists>post. writes (set_frequency_ppm p s freq error) = writes s @ post \<and>
     (\<forall>x \<in> set post. fst x = REG_OP_MODE \<or> fst x = REG_LORA_PPM_CORRECTION \<or>
                        fst x = REG_LORA_DETECTION_BW500_OPTIMIZE_1 \<or>
                        fst x = REG_LORA_DETECTION_BW500_OPTIMIZE_2)"
proof (cases "op_mode s = SX127X_OP_MODE_LORA")
  case False
  then show ?thesis by (simp add: set_frequency_ppm_def)
next
  case True
  define ppm :: u8 where "ppm = word_of_int (min (max (p error freq) (- 128)) 127)"
  define s1 where "s1 =
    (if ppm \<noteq> lora_ppm_correction (lora s)
     then (sx127x_write_reg (sx127x_prepare_write s) REG_LORA_PPM_CORRECTION ppm)
            \<lparr>lora := (lora s)\<lparr>lora_ppm_correction := ppm\<rparr>\<rparr>
     else s)"
  have r: "set_frequency_ppm p s freq error = sx127x_apply_bw500_sensitivity_workaround s1"
    using True by (simp add: set_frequency_ppm_def Let_def s1_def ppm_def)
  have w1: "\<exists>pre. writes s1 = writes s @ pre \<and>
      (\<forall>x \<in> set pre. fst x = REG_OP_MODE \<or> fst x = REG_LORA_PPM_CORRECTION)"
    by (simp add: s1_def writes_write_reg writes_prepare_write [of s])
  then obtain pre where pre: "writes s1 = writes s @ pre"
    "\<forall>x \<in> set pre. fst x = REG_OP_MODE \<or> fst x = REG_LORA_PPM_CORRECTION"
    by blast
  obtain ws where ws: "writes (sx127x_apply_bw500_sensitivity_workaround s1) = writes s1 @ ws"
    "\<forall>x \<in> set ws. fst x = REG_LORA_DETECTION_BW500_OPTIMIZE_1 \<or>
                      fst x = REG_LORA_DETECTION_BW500_OPTIMIZE_2"
    using writes_workaround [of s1] by blast
  show ?thesis
    using pre ws by (intro exI [of _ "pre @ ws"]) (auto simp add: r)
qed

text \<open>
  C5. In LoRa mode with another frequency cached, \<^verbatim>\<open>sx127x_set_frequency\<close> at
  868000000 Hz with no error computes the tuning word \<open>(868000000 << 19) / 32000000\<close>
  in 64-bit integer arithmetic, which is 0xD90000, and right after preparing the chip for writing
  writes its bytes to the most significant, the middle and the least significant
  frequency register, in that order; nothing written afterwards goes to a frequency
  register.
\<close>

theorem lora_868_tuning_word:
  assumes "op_mode s = SX127X_OP_MODE_LORA" and "lora_freq (lora s) \<noteq> 868000000"
  shows "snd (set_frequency_frf s (868000000 - 0)) = push_bit 19 868000000 div SX127X_FXOSC \<and>
         push_bit 19 868000000 div SX127X_FXOSC = 0xD90000 \<and>
         (\<exists>post. writes (sx127x_set_frequency p s 868000000 0) =
            writes (sx127x_prepare_write s) @
              [(REG_FRF_MSB, 0xD9), (REG_FRF_MID, 0x00), (REG_FRF_LSB, 0x00)] @ post \<and>
            (\<forall>x \<in> set post. fst x \<noteq> REG_FRF_MSB \<and> fst x \<noteq> REG_FRF_MID \<and>
                               fst x \<noteq> REG_FRF_LSB))"
proof -
  have frf: "push_bit 19 (868000000 :: u64) div SX127X_FXOSC = 0xD90000"
    by (simp add: SX127X_FXOSC_def)
  have sf: "set_frequency_frf s (868000000 - 0) =
      (s\<lparr>lora := (lora s)\<lparr>lora_freq := 868000000\<rparr>\<rparr>, 0xD90000)"
    using assms by (simp add: set_frequency_frf_def SX127X_FXOSC_def)
  define s2 where "s2 =
    set_frequency_write_frf (s\<lparr>lora := (lora s)\<lparr>lora_freq := 868000000\<rparr>\<rparr>) 0xD90000"
  have w2: "writes s2 = writes (sx127x_prepare_write s) @
      [(REG_FRF_MSB, 0xD9), (REG_FRF_MID, 0x00), (REG_FRF_LSB, 0x00)]"
    by (simp add: s2_def writes_write_frf prepare_write_update frf_writes_def)
  have r: "sx127x_set_frequency p s 868000000 0 = set_frequency_ppm p s2 868000000 0"
    using sf by (simp add: sx127x_set_frequency_def s2_def)
  obtain post where post: "writes (set_frequency_ppm p s2 868000000 0) = writes s2 @ post"
    "\<forall>x \<in> set post. fst x = REG_OP_MODE \<or> fst x = REG_LORA_PPM_CORRECTION \<or>
                        fst x = REG_LORA_DETECTION_BW500_OPTIMIZE_1 \<or>
                        fst x = REG_LORA_DETECTION_BW500_OPTIMIZE_2"
    using writes_ppm [of p s2 868000000 0] by blast
  have "\<forall>x \<in> set post. fst x \<noteq> REG_FRF_MSB \<and> fst x \<noteq> REG_FRF_MID \<and> fst x \<noteq> REG_FRF_LSB"
    using post(2) by (auto simp add: reg_defs)
  then show ?thesis
    using sf frf post(1) w2 r by auto
qed

text \<open>From continuous receive the chip is first moved to standby.\<close>

theorem lora_868_tuning_word_witness:
  "writes (sx127x_set_frequency (\<lambda>_ _. 0) lora_rx_state 868000000 0) =
     [(0x01, 0x81), (0x06, 0xD9), (0x07, 0x00), (0x08, 0x00)]"
  using lora_868_tuning_word [of lora_rx_state "\<lambda>_ _. 0"]
  by (simp add: sx127x_set_frequency_def set_frequency_frf_def set_frequency_write_frf_def
        set_frequency_ppm_def sx127x_apply_bw500_sensitivity_workaround_def
        bw500_workaround_class_def sx127x_prepare_write_def sx127x_idle_def sx127x_sleep_def
        sx127x_set_mode_def sx127x_write_reg_def lora_rx_state_def zeroed_state_def
        SX127X_FXOSC_def reg_defs mode_defs workaround_defs Let_def)


subsection \<open>C6: LoRa RSSI at an SNR of zero\<close>

lemma rssi_lora_snr_nonneg:
  assumes "op_mode s = SX127X_OP_MODE_LORA"
    and "0 \<le> sint (sx127x_read_reg s REG_LORA_PKT_SNR_VALUE)"
  shows "fst (sx127x_rssi s) =
    c_trunc (real_of_int (sx127x_lora_min_rssi s)
             + (16 / 15) * real (unat (sx127x_read_reg s REG_LORA_PKT_RSSI_VALUE)))"
  using assms by (simp add: sx127x_rssi_def Let_def)

lemma c_trunc_slope_high:
  "c_trunc (real_of_int (- 157) + (16 / 15) * real r) =
     (if r \<le> 147 then - 157 + int r + int ((r + 14) div 15) else - 157 + int r + int (r div 15))"
proof -
  have e: "real_of_int (- 157) + (16 / 15) * real r = real_of_int (16 * int r - 2355) / real_of_int 15"
    by (simp add: field_simps)
  show ?thesis
  proof (cases "r \<le> 147")
    case True
    then have neg: "real_of_int (16 * int r - 2355) / real_of_int 15 < 0"
      by (simp add: field_simps)
    have "\<lceil>real_of_int (16 * int r - 2355) / real_of_int 15\<rceil> = - ((2355 - 16 * int r) div 15)"
      by (simp only: ceiling_divide_eq_div)
    also have "\<dots> = - 157 + int r + int ((r + 14) div 15)"
      by (simp add: zdiv_int)
    finally show ?thesis using True neg by (simp only: e c_trunc_def) simp
  next
    case False
    then have pos: "0 \<le> real_of_int (16 * int r - 2355) / real_of_int 15"
      by (simp add: field_simps)
    have "\<lfloor>real_of_int (16 * int r - 2355) / real_of_int 15\<rfloor> = (16 * int r - 2355) div 15"
      by (simp only: floor_divide_of_int_eq)
    also have "\<dots> = - 157 + int r + int (r div 15)"
      by (simp add: zdiv_int)
    finally show ?thesis using False pos by (simp only: e c_trunc_def) simp
  qed
qed

text \<open>
  C6, as the source has it. In LoRa mode, with an SNR byte of 0, a raw RSSI byte \<open>R\<close>
  and the floor -157, \<^verbatim>\<open>sx127x_rssi\<close> takes the branch for an SNR of at least zero: it
  returns \<open>-157 + (16/15) * R\<close> truncated towards zero, which is \<open>-157 + R\<close> plus
  \<open>R / 15\<close> rounded up (down from 148 on) and equals \<open>-157 + R\<close> only for \<open>R = 0\<close>.
  The third branch of the source, which adds the two, is never taken.
\<close>

theorem rssi_lora_snr_zero_slope:
  assumes "op_mode s = SX127X_OP_MODE_LORA"
    and "sx127x_read_reg s REG_LORA_PKT_SNR_VALUE = 0"
    and "sx127x_lora_min_rssi s = - 157"
  shows "let R = unat (sx127x_read_reg s REG_LORA_PKT_RSSI_VALUE) in
           fst (sx127x_rssi s) = c_trunc (- 157 + (16 / 15) * real R) \<and>
           fst (sx127x_rssi s) =
             - 157 + int R + int (if R \<le> 147 then (R + 14) div 15 else R div 15) \<and>
           (fst (sx127x_rssi s) = - 157 + int R \<longleftrightarrow> R = 0)"
proof -
  define R where "R = unat (sx127x_read_reg s REG_LORA_PKT_RSSI_VALUE)"
  have a: "fst (sx127x_rssi s) = c_trunc (real_of_int (- 157) + (16 / 15) * real R)"
    using rssi_lora_snr_nonneg [of s] assms by (simp add: R_def)
  have b: "fst (sx127x_rssi s) =
      - 157 + int R + int (if R \<le> 147 then (R + 14) div 15 else R div 15)"
    by (simp only: a c_trunc_slope_high) simp
  have k: "(if R \<le> 147 then (R + 14) div 15 else R div 15) = 0 \<longleftrightarrow> R = 0"
    by (simp add: div_eq_0_iff)
  have c: "fst (sx127x_rssi s) = - 157 + int R \<longleftrightarrow> R = 0"
    unfolding b using k by (simp only: add_right_cancel add_cancel_left_right of_nat_eq_0_iff
        add_cancel_right_right)
  show ?thesis
    unfolding Let_def R_def [symmetric]
  proof (intro conjI)
    show "fst (sx127x_rssi s) = c_trunc (- 157 + 16 / 15 * real R)"
      using a by simp
  qed (rule b, rule c)
qed


text \<open>At 868 MHz with a raw RSSI of 100 the result is -157 + 106.67, truncated to -50.\<close>

theorem rssi_lora_snr_zero_slope_witness:
  "fst (sx127x_rssi lora_868_snr0_rssi100) = - 50"
  using rssi_lora_snr_zero_slope [of lora_868_snr0_rssi100]
  by (simp add: lora_868_snr0_rssi100_def lora_rx_state_def zeroed_state_def
      sx127x_read_reg_def sx127x_lora_min_rssi_def reg_defs)

text \<open>C6 as stated fails there: \<open>-157 + 100\<close> is -57.\<close>

theorem rssi_lora_snr_zero_counterexample:
  "op_mode lora_868_snr0_rssi100 = SX127X_OP_MODE_LORA \<and>
   sx127x_read_reg lora_868_snr0_rssi100 REG_LORA_PKT_SNR_VALUE = 0 \<and>
   sx127x_read_reg lora_868_snr0_rssi100 REG_LORA_PKT_RSSI_VALUE = 100 \<and>
   sx127x_lora_min_rssi lora_868_snr0_rssi100 = - 157 \<and>
   fst (sx127x_rssi lora_868_snr0_rssi100) = - 50 \<and>
   fst (sx127x_rssi lora_868_snr0_rssi100) \<noteq> - 157 + 100"
  by (simp add: lora_868_snr0_rssi100_def lora_rx_state_def zeroed_state_def
      sx127x_read_reg_def sx127x_lora_min_rssi_def reg_defs sx127x_rssi_def Let_def
      c_trunc_def)

subsection \<open>C7: the minimum RSSI of the band\<close>

lemma lora_min_rssi_threshold:
  "sx127x_lora_min_rssi s = (if 700000 < lora_freq (lora s) then - 157 else - 164)"
  by (simp add: sx127x_lora_min_rssi_def)

lemma lora_min_rssi_both_bands:
  "410000000 \<le> lora_freq (lora s) \<Longrightarrow> sx127x_lora_min_rssi s = - 157"
  by (simp add: sx127x_lora_min_rssi_def word_le_nat_alt word_less_nat_alt)

text \<open>
  C7 says that a stored frequency in the low band, 410 to 525 MHz in Hz, gets the floor
  -164. The source compares the frequency, which is in Hz, with 700000: at 433 MHz the
  function returns -157, the floor its own comments give to the high band.
\<close>

theorem lora_min_rssi_low_band_433:
  "410000000 \<le> lora_freq (lora lora_433_state) \<and>
   lora_freq (lora lora_433_state) \<le> 525000000 \<and>
   sx127x_lora_min_rssi lora_433_state = - 157"
  by (simp add: lora_433_state_def lora_rx_state_def zeroed_state_def sx127x_lora_min_rssi_def)


subsection \<open>C8: the FSK bandwidth lookup\<close>

text \<open>
  The loop from index \<open>ii\<close> fails when no later pair of neighbours encloses \<open>hz\<close>, and
  returns the code of the first pair that does.
\<close>

lemma loop_miss:
  "(\<And>j. ii \<le> j \<Longrightarrow> j < length tbl - 1 \<Longrightarrow>
        \<not> (fst (tbl ! j) \<le> hz \<and> hz < fst (tbl ! (j + 1)))) \<Longrightarrow>
   fsk_bandwidth_loop tbl ii hz = Inl Unreachable"
proof (induction tbl ii hz rule: fsk_bandwidth_loop.induct)
  case (1 tbl ii hz)
  show ?case
  proof (cases "ii < length tbl - 1")
    case False
    then show ?thesis by (subst fsk_bandwidth_loop.simps) simp
  next
    case True
    have here: "\<not> (fst (tbl ! ii) \<le> hz \<and> hz < fst (tbl ! (ii + 1)))"
      using "1.prems" [of ii] True by simp
    have "fsk_bandwidth_loop tbl (ii + 1) hz = Inl Unreachable"
      using True here "1.prems" by (intro "1.IH") auto
    then show ?thesis
      using True here by (subst fsk_bandwidth_loop.simps) simp
  qed
qed

lemma loop_hit:
  "ii \<le> i \<Longrightarrow> i < length tbl - 1 \<Longrightarrow> fst (tbl ! i) \<le> hz \<Longrightarrow> hz < fst (tbl ! (i + 1)) \<Longrightarrow>
   (\<And>j. ii \<le> j \<Longrightarrow> j < i \<Longrightarrow> \<not> (fst (tbl ! j) \<le> hz \<and> hz < fst (tbl ! (j + 1)))) \<Longrightarrow>
   fsk_bandwidth_loop tbl ii hz = Inr (snd (tbl ! i))"
proof (induction tbl ii hz rule: fsk_bandwidth_loop.induct)
  case (1 tbl ii hz)
  show ?case
  proof (cases "ii = i")
    case True
    then show ?thesis
      using "1.prems" by (subst fsk_bandwidth_loop.simps) simp
  next
    case False
    then have lt: "ii < i" using "1.prems"(1) by simp
    have here: "\<not> (fst (tbl ! ii) \<le> hz \<and> hz < fst (tbl ! (ii + 1)))"
      using "1.prems"(5) [of ii] lt by simp
    have "fsk_bandwidth_loop tbl (ii + 1) hz = Inr (snd (tbl ! i))"
      using lt here "1.prems" by (intro "1.IH") auto
    then show ?thesis
      using lt here "1.prems"(2) by (subst fsk_bandwidth_loop.simps) auto
  qed
qed

lemma climb:
  "fst (tbl ! 0) \<le> hz \<Longrightarrow> k < length tbl \<Longrightarrow>
   (\<And>j. j < k \<Longrightarrow> \<not> (fst (tbl ! j) \<le> hz \<and> hz < fst (tbl ! (j + 1)))) \<Longrightarrow>
   fst (tbl ! k) \<le> (hz :: u32)"
proof (induction k)
  case 0
  then show ?case by simp
next
  case (Suc k)
  have "fst (tbl ! k) \<le> hz"
    using Suc.prems by (intro Suc.IH) auto
  then show ?case
    using Suc.prems(3) [of k] by (simp add: not_less)
qed

lemma fsk_bandwidths_length: "length fsk_bandwidths = 22"
  by (simp add: fsk_bandwidths_def)

lemma fsk_bandwidths_ascending: "sorted_wrt (<) (map fst fsk_bandwidths)"
  by (simp add: fsk_bandwidths_def)

lemma fsk_bandwidths_mono:
  assumes "j \<le> i" "i < 22"
  shows "fst (fsk_bandwidths ! j) \<le> fst (fsk_bandwidths ! i)"
proof (cases "j = i")
  case True
  then show ?thesis by simp
next
  case False
  then have "j < i" using assms by simp
  then have "map fst fsk_bandwidths ! j < map fst fsk_bandwidths ! i"
    using assms sorted_wrt_nth_less [OF fsk_bandwidths_ascending, of j i]
    by (simp add: fsk_bandwidths_length)
  then show ?thesis
    using assms \<open>j < i\<close> by (simp add: fsk_bandwidths_length)
qed

lemma fsk_bandwidths_ends:
  "fst (fsk_bandwidths ! 0) = 2600" "fst (fsk_bandwidths ! 21) = 300000"
  "fsk_bandwidths ! 20 = (250000, 0x01)"
  by (simp_all add: fsk_bandwidths_def)

lemma fsk_lookup_hit:
  assumes "i < 21" "fst (fsk_bandwidths ! i) \<le> hz" "hz < fst (fsk_bandwidths ! (i + 1))"
  shows "sx127x_get_fsk_bandwidth_reg_value hz = Inr (snd (fsk_bandwidths ! i))"
  unfolding sx127x_get_fsk_bandwidth_reg_value_def
proof (rule loop_hit)
  fix j
  assume "j < i"
  then have "fst (fsk_bandwidths ! (j + 1)) \<le> fst (fsk_bandwidths ! i)"
    using assms(1) by (intro fsk_bandwidths_mono) simp_all
  then show "\<not> (fst (fsk_bandwidths ! j) \<le> hz \<and> hz < fst (fsk_bandwidths ! (j + 1)))"
    using assms(2) by auto
qed (use assms in \<open>simp_all add: fsk_bandwidths_length\<close>)

lemma fsk_lookup_fatal:
  "sx127x_get_fsk_bandwidth_reg_value hz = Inl Unreachable \<longleftrightarrow> hz < 2600 \<or> 300000 \<le> hz"
proof
  assume r: "sx127x_get_fsk_bandwidth_reg_value hz = Inl Unreachable"
  show "hz < 2600 \<or> 300000 \<le> hz"
  proof (rule ccontr)
    assume "\<not> (hz < 2600 \<or> 300000 \<le> hz)"
    then have lo: "fst (fsk_bandwidths ! 0) \<le> hz" and hi: "hz < fst (fsk_bandwidths ! 21)"
      by (simp_all add: fsk_bandwidths_ends not_less not_le)
    have "\<exists>j<21. fst (fsk_bandwidths ! j) \<le> hz \<and> hz < fst (fsk_bandwidths ! (j + 1))"
    proof (rule ccontr)
      assume n: "\<not> ?thesis"
      have "fst (fsk_bandwidths ! 21) \<le> hz"
      proof (rule climb [OF lo])
        show "21 < length fsk_bandwidths"
          by (simp add: fsk_bandwidths_length)
      next
        fix j :: nat
        assume "j < 21"
        then show "\<not> (fst (fsk_bandwidths ! j) \<le> hz \<and> hz < fst (fsk_bandwidths ! (j + 1)))"
          using n by blast
      qed
      then show False using hi by simp
    qed
    then obtain j where "j < 21" "fst (fsk_bandwidths ! j) \<le> hz"
      "hz < fst (fsk_bandwidths ! (j + 1))" by blast
    then have "sx127x_get_fsk_bandwidth_reg_value hz = Inr (snd (fsk_bandwidths ! j))"
      by (rule fsk_lookup_hit)
    then show False using r by simp
  qed
next
  assume out: "hz < 2600 \<or> 300000 \<le> hz"
  show "sx127x_get_fsk_bandwidth_reg_value hz = Inl Unreachable"
    unfolding sx127x_get_fsk_bandwidth_reg_value_def
  proof (rule loop_miss)
    fix j
    assume j: "j < length fsk_bandwidths - 1"
    have "fst (fsk_bandwidths ! 0) \<le> fst (fsk_bandwidths ! j)"
      using j by (intro fsk_bandwidths_mono) (simp_all add: fsk_bandwidths_length)
    moreover have "fst (fsk_bandwidths ! (j + 1)) \<le> fst (fsk_bandwidths ! 21)"
      using j by (intro fsk_bandwidths_mono) (simp_all add: fsk_bandwidths_length)
    ultimately show "\<not> (fst (fsk_bandwidths ! j) \<le> hz \<and> hz < fst (fsk_bandwidths ! (j + 1)))"
      using out by (auto simp add: fsk_bandwidths_ends)
  qed
qed



text \<open>
  C8, as the source has it. The table has 22 entries, the last one a sentinel. For a
  requested \<open>hz\<close> the lookup returns the register code of the entry \<open>i\<close>, among the
  first 21, with \<open>table[i].hz \<le> hz < table[i+1].hz\<close>. It is a fatal error exactly
  when \<open>hz\<close> is below the first threshold, 2600 Hz, or at or above the threshold of the
  sentinel, 300000 Hz.
\<close>

theorem fsk_bandwidth_lookup:
  "(\<forall>i<21. fst (fsk_bandwidths ! i) \<le> hz \<and> hz < fst (fsk_bandwidths ! (i + 1)) \<longrightarrow>
       sx127x_get_fsk_bandwidth_reg_value hz = Inr (snd (fsk_bandwidths ! i))) \<and>
   (sx127x_get_fsk_bandwidth_reg_value hz = Inl Unreachable \<longleftrightarrow> hz < 2600 \<or> 300000 \<le> hz)"
  using fsk_lookup_hit fsk_lookup_fatal by blast

text \<open>260 kHz lies in the last interval; 2599 Hz and 300 kHz lie outside the table.\<close>

theorem fsk_bandwidth_lookup_witness:
  "sx127x_get_fsk_bandwidth_reg_value 260000 = Inr 0x01 \<and>
   sx127x_get_fsk_bandwidth_reg_value 2599 = Inl Unreachable \<and>
   sx127x_get_fsk_bandwidth_reg_value 300000 = Inl Unreachable"
  using fsk_bandwidth_lookup [of 260000, THEN conjunct1, THEN spec, of 20]
    fsk_bandwidth_lookup [of 2599, THEN conjunct2]
    fsk_bandwidth_lookup [of 300000, THEN conjunct2]
  by (simp add: fsk_bandwidths_def)

text \<open>
  C8 as stated fails at the threshold of the last valid entry, 250 kHz: the lookup
  returns that entry's code.
\<close>

theorem fsk_bandwidth_last_valid_counterexample:
  "length fsk_bandwidths = 22 \<and> fsk_bandwidths ! 20 = (250000, 0x01) \<and>
   fsk_bandwidths ! 21 = (300000, 0x00) \<and>
   sx127x_get_fsk_bandwidth_reg_value 250000 = Inr 0x01 \<and>
   sx127x_get_fsk_bandwidth_reg_value 250000 \<noteq> Inl Unreachable"
  by (simp add: sx127x_get_fsk_bandwidth_reg_value_def fsk_bandwidths_def
      fsk_bandwidth_loop.simps)

subsection \<open>C4: the PPM correction\<close>

text \<open>
  Whatever the single-precision expression evaluates to, the correction cached after a
  call in LoRa mode is that value clamped into \<open>[-128, 127]\<close>.
\<close>

lemma ppm_block_cached:
  "op_mode s = SX127X_OP_MODE_LORA \<Longrightarrow>
   lora_ppm_correction (lora (set_frequency_ppm p s freq error)) =
     word_of_int (min (max (p error freq) (- 128)) 127)"
  by (simp add: set_frequency_ppm_def Let_def)

lemma sint_clamped: "sint (word_of_int (min (max x (- 128)) 127) :: u8) = min (max x (- 128)) 127"
  by (simp add: sint_sbintrunc' signed_take_bit_int_eq_self)

lemma set_frequency_ppm_cached:
  assumes "op_mode s = SX127X_OP_MODE_LORA"
  shows "sint (lora_ppm_correction (lora (sx127x_set_frequency p s target error))) =
           min (max (p error (target - error)) (- 128)) 127"
proof -
  obtain s1 frf where sf: "set_frequency_frf s (target - error) = (s1, frf)"
    by (cases "set_frequency_frf s (target - error)")
  have "op_mode s1 = SX127X_OP_MODE_LORA"
    using frf_fields(1) [of s "target - error"] assms by (simp add: sf)
  then have "op_mode (set_frequency_write_frf s1 frf) = SX127X_OP_MODE_LORA"
    by simp
  then show ?thesis
    by (simp add: sx127x_set_frequency_def sf ppm_block_cached sint_clamped)
qed

lemmas b32_defs = binary32_def binary_exponent_def rint_even_def pow2_def bit_length.simps Let_def

text \<open>
  The rounding is to the nearest: \<open>binary_exponent\<close> brackets the magnitude between two
  powers of two, and \<open>binary32 x\<close> is within half a unit in the last place of \<open>x\<close>.
\<close>

lemma bit_length_bounds:
  "0 < n \<Longrightarrow> 2 ^ (bit_length n - 1) \<le> n \<and> n < 2 ^ bit_length n"
proof (induction n rule: bit_length.induct)
  case (1 n)
  show ?case
  proof (cases "n div 2 = 0")
    case True
    then have "n = 1" using "1.prems" by (simp add: div_eq_0_iff) 
    then show ?thesis
      by (simp add: bit_length.simps)
  next
    case False
    then have h: "2 ^ (bit_length (n div 2) - 1) \<le> n div 2 \<and> n div 2 < 2 ^ bit_length (n div 2)"
      using "1.IH" "1.prems" by simp
    have pos: "0 < bit_length (n div 2)"
      using False by (subst bit_length.simps) simp
    have bl: "bit_length n = Suc (bit_length (n div 2))"
      using "1.prems" by (subst bit_length.simps) simp
    have "2 ^ bit_length (n div 2) \<le> n"
    proof -
      have "2 * 2 ^ (bit_length (n div 2) - 1) \<le> 2 * (n div 2)"
        using h by simp
      moreover have "2 * 2 ^ (bit_length (n div 2) - 1) = (2::nat) ^ bit_length (n div 2)"
        using pos by (cases "bit_length (n div 2)") simp_all
      ultimately show ?thesis by simp
    qed
    moreover have "n < 2 * 2 ^ bit_length (n div 2)"
    proof -
      define m :: nat where "m = 2 ^ bit_length (n div 2)"
      have "n div 2 < m" using h by (simp add: m_def)
      then have "n < 2 * m" by arith
      then show ?thesis by (simp add: m_def)
    qed
    ultimately show ?thesis
      by (simp add: bl)
  qed
qed

lemma pow2_nat: "pow2 (int n) = 2 ^ n"
  by (simp add: pow2_def)

lemma binary_exponent_bracket:
  assumes "x \<noteq> 0"
  shows "pow2 (binary_exponent x) \<le> \<bar>x\<bar> \<and> \<bar>x\<bar> < pow2 (binary_exponent x + 1)"
proof (cases "1 \<le> \<bar>x\<bar>")
  case True
  define n where "n = nat \<lfloor>\<bar>x\<bar>\<rfloor>"
  have n: "0 < n" "real n \<le> \<bar>x\<bar>" "\<bar>x\<bar> < real n + 1"
    using True by (simp_all add: n_def)
  have b: "2 ^ (bit_length n - 1) \<le> n" "n < 2 ^ bit_length n"
    using bit_length_bounds [OF n(1)] by simp_all
  have pos: "0 < bit_length n"
    using n(1) by (subst bit_length.simps) simp
  have e: "binary_exponent x = int (bit_length n - 1)"
    using True pos by (simp add: binary_exponent_def n_def [symmetric] Let_def of_nat_diff)
  have lo: "(2::real) ^ (bit_length n - 1) \<le> \<bar>x\<bar>"
  proof -
    have "(2::real) ^ (bit_length n - 1) = real (2 ^ (bit_length n - 1))" by simp
    also have "\<dots> \<le> real n" using b(1) by (simp only: of_nat_le_iff)
    finally have "(2::real) ^ (bit_length n - 1) \<le> real n" .
    then show ?thesis using n(2) by (rule order_trans)
  qed
  have hi: "\<bar>x\<bar> < (2::real) ^ bit_length n"
  proof -
    have "n + 1 \<le> 2 ^ bit_length n" using b(2) by simp
    then have "real (n + 1) \<le> real (2 ^ bit_length n)" by (simp only: of_nat_le_iff)
    then have "real n + 1 \<le> 2 ^ bit_length n" by simp
    then show ?thesis using n(3) by linarith
  qed
  have s: "int (bit_length n - 1) + 1 = int (bit_length n)"
    using pos by simp
  show ?thesis
    unfolding e s pow2_nat using lo hi by simp
next
  case False
  define a where "a = \<bar>x\<bar>"
  have a: "0 < a" "a < 1" using assms False by (simp_all add: a_def)
  define n where "n = nat \<lfloor>1 / a\<rfloor>"
  have "1 < 1 / a" using a by simp
  then have n: "0 < n" "real n \<le> 1 / a" "1 / a < real n + 1"
    by (simp_all add: n_def) linarith+
  have b: "2 ^ (bit_length n - 1) \<le> n" "n < 2 ^ bit_length n"
    using bit_length_bounds [OF n(1)] by simp_all
  have pos: "0 < bit_length n"
    using n(1) by (subst bit_length.simps) simp
  define k where "k = bit_length n - 1"
  have kk: "int (bit_length n) - 1 = int k" "bit_length n = Suc k"
    using pos by (simp_all add: k_def)
  have lo: "(2::real) ^ k \<le> 1 / a"
  proof -
    have "(2::real) ^ k = real (2 ^ k)" by simp
    also have "\<dots> \<le> real n" using b(1) by (simp only: of_nat_le_iff k_def)
    finally have "(2::real) ^ k \<le> real n" .
    then show ?thesis using n(2) by (rule order_trans)
  qed
  have hi: "1 / a < (2::real) ^ Suc k"
  proof -
    have "n + 1 \<le> 2 ^ Suc k" using b(2) by (simp add: kk)
    then have "real (n + 1) \<le> real (2 ^ Suc k)" by (simp only: of_nat_le_iff)
    then have "real n + 1 \<le> 2 ^ Suc k" by simp
    then show ?thesis using n(3) by linarith
  qed
  have up: "a \<le> 1 / 2 ^ k"
    using lo a by (simp add: field_simps)
  have dn: "1 / 2 ^ Suc k < a"
    using hi a by (simp add: field_simps)
  have p0: "pow2 (- int k) = 1 / 2 ^ k"
    by (simp add: pow2_def)
  have p1: "pow2 (- int k - 1) = 1 / 2 ^ Suc k"
    by (simp add: pow2_def nat_add_distrib)
  have p2: "pow2 (1 - int k) = 2 / 2 ^ k"
    by (cases k) (simp_all add: pow2_def nat_diff_distrib')
  have e: "binary_exponent x = (if a = pow2 (- int k) then - int k else - int k - 1)"
    using False by (simp add: binary_exponent_def a_def [symmetric] n_def [symmetric] Let_def kk)
  show ?thesis
  proof (cases "a = pow2 (- int k)")
    case True
    then show ?thesis
      unfolding a_def [symmetric] e by (simp add: p2 p0 divide_strict_right_mono)
  next
    case False
    then have "a < 1 / 2 ^ k" using up by (simp add: p0)
    then show ?thesis
      unfolding a_def [symmetric] e using False dn by (simp add: p1 p0)
  qed
qed


lemma pow2_pos: "0 < pow2 k"
  by (simp add: pow2_def)

lemma rint_even_nearest: "\<bar>real_of_int (rint_even q) - q\<bar> \<le> 1 / 2"
  unfolding rint_even_def Let_def by (simp split: if_splits)

lemma binary32_nearest:
  "\<bar>binary32 x - x\<bar> \<le> pow2 (binary_exponent x - 23) / 2"
proof (cases "x = 0")
  case True
  then show ?thesis using pow2_pos [of "binary_exponent x - 23"] by (simp add: binary32_def)
next
  case False
  define u where "u = pow2 (binary_exponent x - 23)"
  have u: "0 < u" by (simp add: u_def pow2_pos)
  have "binary32 x - x = (real_of_int (rint_even (x / u)) - x / u) * u"
    using False u by (simp add: binary32_def Let_def u_def [symmetric] field_simps)
  then have "\<bar>binary32 x - x\<bar> = \<bar>real_of_int (rint_even (x / u)) - x / u\<bar> * u"
    using u by (simp add: abs_mult)
  also have "\<dots> \<le> 1 / 2 * u"
    using rint_even_nearest [of "x / u"] u by (intro mult_right_mono) simp_all
  finally show ?thesis by (simp add: u_def)
qed

text \<open>The rounding on known values: \<^verbatim>\<open>0.95f\<close> is 0x3F733333, and ties go to even.\<close>

lemma binary32_examples:
  "binary32 (95 / 100) = 15938355 / 16777216"
  "binary32 451660116 = 451660128"
  "binary32 16777217 = 16777216"
  "binary32 16777219 = 16777220"
  "binary32 (1 / 3) = 11184811 / 33554432"
  "binary32 (- (1 / 2)) = - (1 / 2)"
  by (simp_all add: b32_defs)

lemma ppm_binary32_example: "ppm_binary32 43502 451660116 = Some 92"
  by (simp add: ppm_binary32_def b32_defs)

lemma spec_ppm_example: "spec_ppm_correction 43502 451660116 = 91"
  by (simp add: spec_ppm_correction_def round_def)

lemma writes_frf_block:
  "writes (fst (set_frequency_frf s freq)) = writes s"
  "lora_ppm_correction (lora (fst (set_frequency_frf s freq))) = lora_ppm_correction (lora s)"
  by (simp_all add: set_frequency_frf_def split: sx127x_op_mode_e.split)

lemma writes_write_frf_addrs:
  "\<exists>pre. writes (set_frequency_write_frf s frf) = writes s @ pre \<and>
     (\<forall>x \<in> set pre. fst x \<noteq> REG_LORA_PPM_CORRECTION)"
  by (simp add: writes_write_frf writes_prepare_write [of s] frf_writes_def reg_defs)

lemma writes_ppm_exact:
  assumes "op_mode s = SX127X_OP_MODE_LORA"
  shows "\<exists>m post. writes (set_frequency_ppm p s freq error) =
      writes s @ m @
        (if word_of_int (min (max (p error freq) (- 128)) 127) \<noteq> lora_ppm_correction (lora s)
         then [(REG_LORA_PPM_CORRECTION, word_of_int (min (max (p error freq) (- 128)) 127))]
         else []) @ post \<and>
      (\<forall>x \<in> set (m @ post). fst x \<noteq> REG_LORA_PPM_CORRECTION)"
proof -
  define c :: u8 where "c = word_of_int (min (max (p error freq) (- 128)) 127)"
  define s1 where "s1 =
    (if c \<noteq> lora_ppm_correction (lora s)
     then (sx127x_write_reg (sx127x_prepare_write s) REG_LORA_PPM_CORRECTION c)
            \<lparr>lora := (lora s)\<lparr>lora_ppm_correction := c\<rparr>\<rparr>
     else s)"
  have r: "set_frequency_ppm p s freq error = sx127x_apply_bw500_sensitivity_workaround s1"
    using assms by (simp add: set_frequency_ppm_def Let_def s1_def c_def)
  obtain m where m: "writes s1 = writes s @ m @
      (if c \<noteq> lora_ppm_correction (lora s) then [(REG_LORA_PPM_CORRECTION, c)] else [])"
    "\<forall>x \<in> set m. fst x \<noteq> REG_LORA_PPM_CORRECTION"
  proof (cases "c \<noteq> lora_ppm_correction (lora s)")
    case True
    show ?thesis
    proof (rule that)
      show "writes s1 = writes s @
          (if mode (sx127x_prepare_write s) = mode s then []
           else [(REG_OP_MODE, mode (sx127x_prepare_write s))]) @
          (if c \<noteq> lora_ppm_correction (lora s) then [(REG_LORA_PPM_CORRECTION, c)] else [])"
        using True by (simp add: s1_def writes_write_reg writes_prepare_write [of s])
      show "\<forall>x \<in> set (if mode (sx127x_prepare_write s) = mode s then []
           else [(REG_OP_MODE, mode (sx127x_prepare_write s))]).
          fst x \<noteq> REG_LORA_PPM_CORRECTION"
        by (simp add: reg_defs)
    qed
  next
    case False
    show ?thesis
      by (rule that [of "[]"]) (use False in \<open>simp_all add: s1_def\<close>)
  qed
  obtain ws where ws: "writes (sx127x_apply_bw500_sensitivity_workaround s1) = writes s1 @ ws"
    "\<forall>x \<in> set ws. fst x = REG_LORA_DETECTION_BW500_OPTIMIZE_1 \<or>
                      fst x = REG_LORA_DETECTION_BW500_OPTIMIZE_2"
    using writes_workaround [of s1] by blast
  have "\<forall>x \<in> set ws. fst x \<noteq> REG_LORA_PPM_CORRECTION"
    using ws(2) by (auto simp add: reg_defs)
  then show ?thesis
    unfolding c_def [symmetric]
    using m ws(1) by (intro exI [of _ m] exI [of _ ws]) (auto simp add: r)
qed

text \<open>
  C4, as the source has it. In LoRa mode, for every error and every effective
  frequency \<open>target - error\<close> at which the single-precision expression
  \<^verbatim>\<open>lrintf(0.95f * (error / ((float)freq / 1000000)))\<close> has a value \<open>r\<close>, the correction
  cached is \<open>r\<close> clamped into \<open>[-128, 127]\<close>, and the call writes that byte to the
  correction register, once, exactly when it differs from the cached one. The value
  \<open>r\<close> is the one of single precision, each operation rounded, not the exact quotient
  rounded once.
\<close>

theorem ppm_correction_single_precision:
  assumes "op_mode s = SX127X_OP_MODE_LORA"
    and "ppm_binary32 error (target - error) = Some r"
    and "lrintf_ppm error (target - error) = r"
  shows "sint (lora_ppm_correction (lora (sx127x_set_frequency lrintf_ppm s target error))) =
           min (max r (- 128)) 127 \<and>
         (\<exists>pre post. writes (sx127x_set_frequency lrintf_ppm s target error) =
            writes s @ pre @
              (if word_of_int (min (max r (- 128)) 127) \<noteq> lora_ppm_correction (lora s)
               then [(REG_LORA_PPM_CORRECTION, word_of_int (min (max r (- 128)) 127))]
               else []) @ post \<and>
            (\<forall>x \<in> set (pre @ post). fst x \<noteq> REG_LORA_PPM_CORRECTION))"
proof
  show "sint (lora_ppm_correction (lora (sx127x_set_frequency lrintf_ppm s target error))) =
      min (max r (- 128)) 127"
    using set_frequency_ppm_cached [OF assms(1), of lrintf_ppm target error] assms(3) by simp
next
  obtain s1 frf where sf: "set_frequency_frf s (target - error) = (s1, frf)"
    by (cases "set_frequency_frf s (target - error)")
  define s2 where "s2 = set_frequency_write_frf s1 frf"
  have s1: "op_mode s1 = SX127X_OP_MODE_LORA" "writes s1 = writes s"
    "lora_ppm_correction (lora s1) = lora_ppm_correction (lora s)"
    using frf_fields(1) [of s "target - error"] writes_frf_block [of s "target - error"] assms(1)
    by (simp_all add: sf)
  have s2: "op_mode s2 = SX127X_OP_MODE_LORA"
    "lora_ppm_correction (lora s2) = lora_ppm_correction (lora s)"
    by (simp_all add: s2_def s1)
  obtain pre where pre: "writes s2 = writes s @ pre"
    "\<forall>x \<in> set pre. fst x \<noteq> REG_LORA_PPM_CORRECTION"
    using writes_write_frf_addrs [of s1 frf] by (auto simp add: s2_def s1)
  have res: "sx127x_set_frequency lrintf_ppm s target error =
      set_frequency_ppm lrintf_ppm s2 (target - error) error"
    by (simp add: sx127x_set_frequency_def sf s2_def)
  obtain m post where mp:
    "writes (set_frequency_ppm lrintf_ppm s2 (target - error) error) =
      writes s2 @ m @
        (if word_of_int (min (max r (- 128)) 127) \<noteq> lora_ppm_correction (lora s)
         then [(REG_LORA_PPM_CORRECTION, word_of_int (min (max r (- 128)) 127))]
         else []) @ post"
    "\<forall>x \<in> set (m @ post). fst x \<noteq> REG_LORA_PPM_CORRECTION"
    using writes_ppm_exact [OF s2(1), of lrintf_ppm "target - error" error] assms(3) s2(2)
    by auto
  show "\<exists>pre post. writes (sx127x_set_frequency lrintf_ppm s target error) =
      writes s @ pre @
        (if word_of_int (min (max r (- 128)) 127) \<noteq> lora_ppm_correction (lora s)
         then [(REG_LORA_PPM_CORRECTION, word_of_int (min (max r (- 128)) 127))]
         else []) @ post \<and>
      (\<forall>x \<in> set (pre @ post). fst x \<noteq> REG_LORA_PPM_CORRECTION)"
    using pre mp by (intro exI [of _ "pre @ m"] exI [of _ post]) (auto simp add: res)
qed


text \<open>
  A target of 451703618 Hz with an error of 43502 Hz, from continuous receive: the
  expression is 91.5 in single precision, which rounds to 92.
\<close>

theorem ppm_correction_single_precision_witness:
  "sint (lora_ppm_correction (lora
     (sx127x_set_frequency lrintf_ppm_binary32 lora_rx_state 451703618 43502))) = 92 \<and>
   writes (sx127x_set_frequency lrintf_ppm_binary32 lora_rx_state 451703618 43502) =
     [(0x01, 0x81), (0x06, 0x70), (0x07, 0xEA), (0x08, 0x3F), (0x27, 92)]"
proof -
  have p: "lrintf_ppm_binary32 43502 451660116 = 92"
    by (simp add: lrintf_ppm_binary32_def ppm_binary32_example)
  have w: "writes (sx127x_set_frequency lrintf_ppm_binary32 lora_rx_state 451703618 43502) =
     [(0x01, 0x81), (0x06, 0x70), (0x07, 0xEA), (0x08, 0x3F), (0x27, 92)]"
    by (simp add: sx127x_set_frequency_def set_frequency_frf_def set_frequency_write_frf_def
        set_frequency_ppm_def sx127x_apply_bw500_sensitivity_workaround_def
        bw500_workaround_class_def sx127x_prepare_write_def sx127x_idle_def sx127x_sleep_def
        sx127x_set_mode_def sx127x_write_reg_def lora_rx_state_def zeroed_state_def
        SX127X_FXOSC_def reg_defs mode_defs workaround_defs Let_def p)
  have m: "op_mode lora_rx_state = SX127X_OP_MODE_LORA"
    by (simp add: lora_rx_state_def zeroed_state_def)
  show ?thesis
    using ppm_correction_single_precision
      [of lora_rx_state 43502 451703618 92 lrintf_ppm_binary32]
    by (simp add: w p m ppm_binary32_example)
qed

text \<open>
  C4 as stated fails at that input: the exact quotient is 91.4999986, which rounds to
  91.
\<close>

theorem ppm_correction_exact_rounding_counterexample:
  "op_mode lora_rx_state = SX127X_OP_MODE_LORA \<and>
   ppm_binary32 43502 (451703618 - 43502) = Some 92 \<and>
   spec_ppm_correction 43502 (451703618 - 43502) = 91 \<and>
   sint (lora_ppm_correction (lora
     (sx127x_set_frequency lrintf_ppm_binary32 lora_rx_state 451703618 43502))) = 92 \<and>
   sint (lora_ppm_correction (lora
     (sx127x_set_frequency lrintf_ppm_binary32 lora_rx_state 451703618 43502))) \<noteq>
     spec_ppm_correction 43502 (451703618 - 43502)"
proof -
  have m: "op_mode lora_rx_state = SX127X_OP_MODE_LORA"
    by (simp add: lora_rx_state_def zeroed_state_def)
  show ?thesis
    using set_frequency_ppm_cached [OF m, of lrintf_ppm_binary32 451703618 43502]
    by (simp add: m ppm_binary32_example spec_ppm_example lrintf_ppm_binary32_def)
qed

subsection \<open>C9: the LoRa spreading factor\<close>

lemma nib_low: "((r AND 0x0f) OR (x AND 0xf0)) AND 0x0f = r AND (0x0f :: u8)"
proof -
  have m: "(0x0f :: u8) = mask 4" by (simp add: mask_eq_exp_minus_1)
  have n: "(0xf0 :: u8) = push_bit 4 (mask 4)" by (simp add: mask_eq_exp_minus_1)
  show ?thesis
    unfolding m n
    by (rule bit_word_eqI) (auto simp add: bit_and_iff bit_or_iff bit_mask_iff bit_push_bit_iff)
qed

lemma nib_high:
  assumes "6 \<le> sf" "sf \<le> 12"
  shows "drop_bit 4 ((r AND 0x0f) OR (word_of_int (push_bit 4 sf) AND 0xf0)) = (word_of_int sf :: u8)"
proof -
  have m: "(0x0f :: u8) = mask 4" by (simp add: mask_eq_exp_minus_1)
  have sf: "sf \<in> {6, 7, 8, 9, 10, 11, 12}" using assms by auto
  then have v: "(word_of_int (push_bit 4 sf) AND 0xf0 :: u8) = push_bit 4 (word_of_int sf)"
    by (auto simp add: push_bit_eq_mult)
  have t: "take_bit 4 (word_of_int sf :: u8) = word_of_int sf"
    using sf by auto
  have "drop_bit 4 ((r AND mask 4) OR push_bit 4 (word_of_int sf :: u8)) =
      take_bit 4 (word_of_int sf)"
    by (rule bit_word_eqI)
       (auto simp add: bit_drop_bit_eq bit_and_iff bit_or_iff bit_mask_iff bit_push_bit_iff
          bit_take_bit_iff)
  then show ?thesis
    unfolding v m t .
qed

lemma regs_prepare_write:
  "a \<noteq> REG_OP_MODE \<Longrightarrow> regs (sx127x_prepare_write s) a = regs s a"
  by (simp add: sx127x_prepare_write_def sx127x_sleep_def sx127x_idle_def sx127x_set_mode_def
      sx127x_write_reg_def Let_def split: sx127x_op_mode_e.split)

lemma regs_write_reg:
  "regs (sx127x_write_reg s a v) b = (if b = a then v else regs s b)"
  by (simp add: sx127x_write_reg_def)

text \<open>
  C9. \<^verbatim>\<open>sx127x_set_lora_spreading_factor\<close> clamps its argument into \<open>[6, 12]\<close>. After
  preparing the chip for writing it writes the detection-optimize and detection-threshold registers, with
  \<open>(0xC5, 0x0C)\<close> when the clamped value is 6 and \<open>(0xC3, 0x0A)\<close> otherwise, and then
  modem-config-2 with the clamped value in the high nibble and the low nibble the
  register had; the clamped value is cached.
\<close>

theorem set_lora_spreading_factor_clamps_and_writes:
  "let sf = max 6 (min 12 sf0);
       v = (sx127x_read_reg s REG_LORA_MODEM_CONFIG_2 AND 0x0f) OR push_bit 4 (word_of_int sf)
   in writes (sx127x_set_lora_spreading_factor s sf0) =
        writes (sx127x_prepare_write s) @
          [(REG_LORA_DETECTION_OPTIMIZE, if sf = 6 then 0xC5 else 0xC3),
           (REG_LORA_DETECTION_THRESHOLD, if sf = 6 then 0x0C else 0x0A),
           (REG_LORA_MODEM_CONFIG_2, v)] \<and>
      drop_bit 4 v = word_of_int sf \<and>
      v AND 0x0f = sx127x_read_reg s REG_LORA_MODEM_CONFIG_2 AND 0x0f \<and>
      lora_sf (lora (sx127x_set_lora_spreading_factor s sf0)) = sf"
proof -
  define sf where "sf = max 6 (min 12 sf0)"
  define r where "r = sx127x_read_reg s REG_LORA_MODEM_CONFIG_2"
  define v where "v = (r AND 0x0f) OR (word_of_int (push_bit 4 sf) AND 0xf0 :: u8)"
  have clamp: "(if sf0 < 6 then 6 else if sf0 > 12 then 12 else sf0) = sf"
    by (simp add: sf_def)
  have range: "6 \<le> sf" "sf \<le> 12"
    by (simp_all add: sf_def)
  then have "sf \<in> {6, 7, 8, 9, 10, 11, 12}" by auto
  then have pb: "(word_of_int (push_bit 4 sf) AND 0xf0 :: u8) = push_bit 4 (word_of_int sf)"
    by (auto simp add: push_bit_eq_mult)
  have rd: "regs (sx127x_write_reg (sx127x_write_reg (sx127x_prepare_write s)
               REG_LORA_DETECTION_OPTIMIZE x) REG_LORA_DETECTION_THRESHOLD y)
             REG_LORA_MODEM_CONFIG_2 = r" for x y
    by (simp add: regs_write_reg regs_prepare_write r_def sx127x_read_reg_def reg_defs)
  have w: "writes (sx127x_set_lora_spreading_factor s sf0) =
        writes (sx127x_prepare_write s) @
          [(REG_LORA_DETECTION_OPTIMIZE, if sf = 6 then 0xC5 else 0xC3),
           (REG_LORA_DETECTION_THRESHOLD, if sf = 6 then 0x0C else 0x0A),
           (REG_LORA_MODEM_CONFIG_2, v)]"
    unfolding sx127x_set_lora_spreading_factor_def Let_def clamp
    by (simp add: writes_write_reg sx127x_read_reg_def rd v_def)
  have c: "lora_sf (lora (sx127x_set_lora_spreading_factor s sf0)) = sf"
    unfolding sx127x_set_lora_spreading_factor_def Let_def clamp by simp
  have h: "drop_bit 4 v = word_of_int sf"
    unfolding v_def using range by (rule nib_high)
  have l: "v AND 0x0f = r AND 0x0f"
    unfolding v_def by (rule nib_low)
  show ?thesis
    using w c h l unfolding Let_def sf_def [symmetric] r_def [symmetric] v_def pb
    by simp
qed

text \<open>
  From continuous receive with modem-config-2 at 0x74: an argument of 5 is clamped to 6,
  an argument of 9 is kept.
\<close>

theorem set_lora_spreading_factor_clamps_and_writes_witness:
  "writes (sx127x_set_lora_spreading_factor
     (lora_rx_state\<lparr>regs := (regs lora_rx_state)(REG_LORA_MODEM_CONFIG_2 := 0x74)\<rparr>) 5) =
     [(0x01, 0x81), (0x31, 0xC5), (0x37, 0x0C), (0x1e, 0x64)] \<and>
   writes (sx127x_set_lora_spreading_factor
     (lora_rx_state\<lparr>regs := (regs lora_rx_state)(REG_LORA_MODEM_CONFIG_2 := 0x74)\<rparr>) 9) =
     [(0x01, 0x81), (0x31, 0xC3), (0x37, 0x0A), (0x1e, 0x94)]"
  using set_lora_spreading_factor_clamps_and_writes
     [of 5 "lora_rx_state\<lparr>regs := (regs lora_rx_state)(REG_LORA_MODEM_CONFIG_2 := 0x74)\<rparr>"]
    set_lora_spreading_factor_clamps_and_writes
     [of 9 "lora_rx_state\<lparr>regs := (regs lora_rx_state)(REG_LORA_MODEM_CONFIG_2 := 0x74)\<rparr>"]
  by (simp add: Let_def lora_rx_state_def zeroed_state_def sx127x_prepare_write_def
      sx127x_idle_def sx127x_set_mode_def sx127x_write_reg_def sx127x_read_reg_def
      reg_defs mode_defs)

subsection \<open>C10: reading clears the receive flag\<close>

lemma mode_prepare_write:
  "mode (sx127x_prepare_write s) =
     (case op_mode s of
        SX127X_OP_MODE_FSK \<Rightarrow> mode s AND MODE_LORA
      | SX127X_OP_MODE_LORA \<Rightarrow>
          if mode s AND NOT MODE_LORA \<noteq> MODE_SLEEP \<and> mode s AND NOT MODE_LORA \<noteq> MODE_STDBY
          then (mode s AND MODE_LORA) OR MODE_STDBY else mode s)"
  by (simp add: sx127x_prepare_write_def sx127x_sleep_def sx127x_idle_def sx127x_set_mode_def
      Let_def mode_defs split: sx127x_op_mode_e.split)

text \<open>
  C10. In FSK and in LoRa mode, whatever the flags were, \<^verbatim>\<open>sx127x_read\<close> returns the
  requested size and leaves \<^verbatim>\<open>rx_done\<close> false, so that \<^verbatim>\<open>sx127x_is_rx_done\<close> is false
  right after it. It changes neither \<^verbatim>\<open>tx_done\<close> nor any cached FSK or LoRa
  configuration field, nor the modulation scheme or the interrupt trigger. The cached
  chip power mode is not a configuration field: in LoRa mode preparing the write moves it to
  standby when the chip is neither asleep nor in standby, and the last conjunct says so.
\<close>

theorem read_clears_rx_done:
  "snd (sx127x_read s sz) = sz \<and>
   \<not> sx127x_is_rx_done (fst (sx127x_read s sz)) \<and>
   sx127x_is_tx_done (fst (sx127x_read s sz)) = sx127x_is_tx_done s \<and>
   fsk (fst (sx127x_read s sz)) = fsk s \<and>
   lora (fst (sx127x_read s sz)) = lora s \<and>
   op_mode (fst (sx127x_read s sz)) = op_mode s \<and>
   dio0_trigger (fst (sx127x_read s sz)) = dio0_trigger s \<and>
   mode (fst (sx127x_read s sz)) =
     (if op_mode s = SX127X_OP_MODE_LORA \<and> mode s AND NOT MODE_LORA \<noteq> MODE_SLEEP \<and>
         mode s AND NOT MODE_LORA \<noteq> MODE_STDBY
      then (mode s AND MODE_LORA) OR MODE_STDBY else mode s)"
  by (cases "op_mode s")
     (simp_all add: sx127x_read_def Let_def sx127x_is_rx_done_def sx127x_is_tx_done_def
        mode_prepare_write)

text \<open>
  A pending completion in LoRa continuous receive and in FSK mode: the flag is cleared
  in both; LoRa resets the FIFO pointer and clears the interrupt, FSK writes nothing.
\<close>

theorem read_clears_rx_done_witness:
  "\<not> sx127x_is_rx_done (fst (sx127x_read (lora_rx_state\<lparr>rx_done := True\<rparr>) 16)) \<and>
   \<not> sx127x_is_rx_done (fst (sx127x_read (zeroed_state\<lparr>rx_done := True\<rparr>) 16)) \<and>
   writes (fst (sx127x_read (lora_rx_state\<lparr>rx_done := True\<rparr>) 16)) =
     [(0x01, 0x81), (0x0d, 0x00), (0x12, 0x40)] \<and>
   writes (fst (sx127x_read (zeroed_state\<lparr>rx_done := True\<rparr>) 16)) = []"
  using read_clears_rx_done [of "lora_rx_state\<lparr>rx_done := True\<rparr>" 16]
    read_clears_rx_done [of "zeroed_state\<lparr>rx_done := True\<rparr>" 16]
  by (simp add: sx127x_read_def Let_def lora_rx_state_def zeroed_state_def
      sx127x_prepare_write_def sx127x_idle_def sx127x_set_mode_def sx127x_write_reg_def
      reg_defs mode_defs IRQ_RX_DONE_MASK_def RX_FIFO_ADDR_def)

end
